theory Spec2Isabelle
  imports Complex_Main "HOL-Library.Word"
begin

section \<open>The MotionTemporal compute kernel (TAA v2)\<close>

text \<open>
  The repository's one source file, \<^verbatim>\<open>update_tm.py\<close>, overwrites
  \<^verbatim>\<open>MotionTemporal.hlsl\<close> with a compute shader held in a string literal. The
  shader's entry point \<^verbatim>\<open>CSMain\<close> is embedded here, one definition for each local
  variable of the kernel, under the variable's own name.

  Integers. HLSL \<^verbatim>\<open>uint\<close> is \<^typ>\<open>32 word\<close>; HLSL \<^verbatim>\<open>int\<close> is read off a word
  with \<^const>\<open>sint\<close>, so that the wrap-around of \<^verbatim>\<open>id.xy + int2(x, y)\<close> is part of
  the model.

  Floats. HLSL \<^verbatim>\<open>float\<close> is a type parameter \<open>'f\<close>, linearly ordered: the
  comparisons \<^verbatim>\<open><\<close> and \<^verbatim>\<open>></\<close> and the intrinsics \<^verbatim>\<open>min\<close> and
  \<^verbatim>\<open>max\<close> compute no new value and are those of the order. Everything that rounds
  (conversion of integers and of decimal literals, the four operations, \<^verbatim>\<open>length\<close>,
  \<^verbatim>\<open>lerp\<close>, texture filtering) is a parameter of the kernel, collected in a record of
  type \<open>'f arith\<close>: a statement about the kernel with an arbitrary \<open>ar\<close> holds for
  whatever the device computes, and every test and threshold is decided on the computed
  values. Not-a-number values, which no order has, are outside the model.
\<close>

type_synonym 'f float2 = "'f \<times> 'f"
type_synonym int2 = "int \<times> int"
type_synonym uint2 = "32 word \<times> 32 word"

subsection \<open>Resources\<close>

text \<open>
  A texture has the dimensions that \<^verbatim>\<open>GetDimensions\<close> reports and a store of
  texels addressed by integer coordinates. Read-only and read-write textures share the type,
  so that one frame's output can be bound as the next frame's history.
\<close>

record 'a Texture2D =
  Width :: "32 word"
  Height :: "32 word"
  Texels :: "int2 \<Rightarrow> 'a"

text \<open>The registers \<^verbatim>\<open>t0\<close> to \<^verbatim>\<open>t5\<close> and the constant buffer \<^verbatim>\<open>TemporalCB\<close>.\<close>

record 'f Inputs =
  MotionCurr :: "'f float2 Texture2D"
  ConfCurr :: "'f Texture2D"
  MotionHistory :: "'f float2 Texture2D"
  ConfHistory :: "'f Texture2D"
  LumaPrev :: "'f Texture2D"
  LumaCurr :: "'f Texture2D"
  historyWeight :: 'f
  confInfluence :: 'f
  resetHistory :: "32 word"
  pad :: 'f

text \<open>The registers \<^verbatim>\<open>u0\<close> and \<^verbatim>\<open>u1\<close>.\<close>

record 'f Outputs =
  MotionOut :: "'f float2 Texture2D"
  ConfOut :: "'f Texture2D"

subsection \<open>Float arithmetic of the device\<close>

text \<open>
  The operations of the kernel that produce a float: \<^verbatim>\<open>float(n)\<close> on a
  \<^verbatim>\<open>uint\<close>, a literal (given by its decimal value), \<^verbatim>\<open>+\<close>, \<^verbatim>\<open>-\<close>,
  \<^verbatim>\<open>*\<close>, \<^verbatim>\<open>/\<close>, \<^verbatim>\<open>length\<close> of a \<^verbatim>\<open>float2\<close>, \<^verbatim>\<open>lerp\<close>, and
  \<^verbatim>\<open>SampleLevel\<close> through the sampler bound to register \<^verbatim>\<open>s0\<close>, on a
  one-channel and on a two-channel texture.
\<close>

record 'f arith =
  f_of_uint :: "32 word \<Rightarrow> 'f"
  f_lit :: "real \<Rightarrow> 'f"
  f_add :: "'f \<Rightarrow> 'f \<Rightarrow> 'f"
  f_sub :: "'f \<Rightarrow> 'f \<Rightarrow> 'f"
  f_mul :: "'f \<Rightarrow> 'f \<Rightarrow> 'f"
  f_div :: "'f \<Rightarrow> 'f \<Rightarrow> 'f"
  f_length :: "'f float2 \<Rightarrow> 'f"
  f_lerp :: "'f \<Rightarrow> 'f \<Rightarrow> 'f \<Rightarrow> 'f"
  f_sample :: "'f Texture2D \<Rightarrow> 'f float2 \<Rightarrow> 'f"
  f_sample2 :: "'f float2 Texture2D \<Rightarrow> 'f float2 \<Rightarrow> 'f float2"

subsection \<open>HLSL intrinsics\<close>

definition in_range :: "'a Texture2D \<Rightarrow> int2 \<Rightarrow> bool" where
  "in_range t p \<longleftrightarrow>
     0 \<le> fst p \<and> fst p < uint (Width t) \<and> 0 \<le> snd p \<and> snd p < uint (Height t)"

text \<open>\<^verbatim>\<open>t.Load(int3(p, 0))\<close>: the texel at integer coordinate \<open>p\<close> of mip level 0.
  That the kernel only loads inside the texture is claim C7; \<^const>\<open>in_range\<close> is the
  predicate it is stated with.\<close>

definition Load :: "'a Texture2D \<Rightarrow> int2 \<Rightarrow> 'a" where
  "Load t p = Texels t p"

text \<open>\<^verbatim>\<open>t[id.xy] = v\<close> on a read-write texture, indexed by an unsigned coordinate.\<close>

definition Store :: "'a Texture2D \<Rightarrow> uint2 \<Rightarrow> 'a \<Rightarrow> 'a Texture2D" where
  "Store t p v = t\<lparr>Texels := (Texels t)((uint (fst p), uint (snd p)) := v)\<rparr>"

definition min2 :: "'f::linorder float2 \<Rightarrow> 'f float2 \<Rightarrow> 'f float2" where
  "min2 a b = (min (fst a) (fst b), min (snd a) (snd b))"

definition max2 :: "'f::linorder float2 \<Rightarrow> 'f float2 \<Rightarrow> 'f float2" where
  "max2 a b = (max (fst a) (fst b), max (snd a) (snd b))"

text \<open>\<^verbatim>\<open>clamp(x, lo, hi)\<close> is \<^verbatim>\<open>min(max(x, lo), hi)\<close>, componentwise on vectors.\<close>

definition clamp_int :: "int \<Rightarrow> int \<Rightarrow> int \<Rightarrow> int" where
  "clamp_int x lo hi = min (max x lo) hi"

definition clamp_int2 :: "int2 \<Rightarrow> int2 \<Rightarrow> int2 \<Rightarrow> int2" where
  "clamp_int2 p lo hi =
     (clamp_int (fst p) (fst lo) (fst hi), clamp_int (snd p) (snd lo) (snd hi))"

definition clamp2 :: "'f::linorder float2 \<Rightarrow> 'f float2 \<Rightarrow> 'f float2 \<Rightarrow> 'f float2" where
  "clamp2 v lo hi = min2 (max2 v lo) hi"

text \<open>\<^verbatim>\<open>lerp\<close> with a scalar weight on vectors works on each component.\<close>

definition lerp2 :: "'f arith \<Rightarrow> 'f float2 \<Rightarrow> 'f float2 \<Rightarrow> 'f \<Rightarrow> 'f float2" where
  "lerp2 ar a b t = (f_lerp ar (fst a) (fst b) t, f_lerp ar (snd a) (snd b) t)"

subsection \<open>The kernel, local by local\<close>

text \<open>Lines 46 to 52: dimensions, texel size and the pixel's normalized centre.\<close>

definition width :: "'f Inputs \<Rightarrow> 32 word" where
  "width inp = Width (MotionCurr inp)"

definition height :: "'f Inputs \<Rightarrow> 32 word" where
  "height inp = Height (MotionCurr inp)"

definition texelSize :: "'f arith \<Rightarrow> 'f Inputs \<Rightarrow> 'f float2" where
  "texelSize ar inp =
     (f_div ar (f_lit ar 1.0) (f_of_uint ar (width inp)),
      f_div ar (f_lit ar 1.0) (f_of_uint ar (height inp)))"

definition uv :: "'f arith \<Rightarrow> 'f Inputs \<Rightarrow> uint2 \<Rightarrow> 'f float2" where
  "uv ar inp tid =
     (f_mul ar (f_add ar (f_of_uint ar (fst tid)) (f_lit ar 0.5)) (fst (texelSize ar inp)),
      f_mul ar (f_add ar (f_of_uint ar (snd tid)) (f_lit ar 0.5)) (snd (texelSize ar inp)))"

text \<open>Lines 57 and 58. \<^verbatim>\<open>int3(id.xy, 0)\<close> converts the unsigned coordinate to int.\<close>

definition currMotion :: "'f Inputs \<Rightarrow> uint2 \<Rightarrow> 'f float2" where
  "currMotion inp tid = Load (MotionCurr inp) (sint (fst tid), sint (snd tid))"

definition currConf :: "'f Inputs \<Rightarrow> uint2 \<Rightarrow> 'f" where
  "currConf inp tid = Load (ConfCurr inp) (sint (fst tid), sint (snd tid))"

text \<open>
  Lines 64 to 76. The sum \<^verbatim>\<open>id.xy + int2(x, y)\<close> is taken in 32 bits and read as
  int; \<^verbatim>\<open>int2(width-1, height-1)\<close> reads the unsigned differences as int.
\<close>

definition nPos :: "'f Inputs \<Rightarrow> uint2 \<Rightarrow> int2 \<Rightarrow> int2" where
  "nPos inp tid d =
     clamp_int2 (sint (fst tid + word_of_int (fst d)), sint (snd tid + word_of_int (snd d)))
       (0, 0) (sint (width inp - 1), sint (height inp - 1))"

definition offsets :: "int2 list" where
  "offsets = concat (map (\<lambda>y. map (\<lambda>x. (x, y)) [-1, 0, 1]) [-1, 0, 1])"

definition loop_body ::
    "'f::linorder Inputs \<Rightarrow> uint2 \<Rightarrow> int2 \<Rightarrow> 'f float2 \<times> 'f float2 \<Rightarrow> 'f float2 \<times> 'f float2" where
  "loop_body inp tid d mm =
     (let nMotion = Load (MotionCurr inp) (nPos inp tid d)
      in (min2 (fst mm) nMotion, max2 (snd mm) nMotion))"

definition bounds :: "'f::linorder Inputs \<Rightarrow> uint2 \<Rightarrow> 'f float2 \<times> 'f float2" where
  "bounds inp tid = fold (loop_body inp tid) offsets (currMotion inp tid, currMotion inp tid)"

definition minMotion :: "'f::linorder Inputs \<Rightarrow> uint2 \<Rightarrow> 'f float2" where
  "minMotion inp tid = fst (bounds inp tid)"

definition maxMotion :: "'f::linorder Inputs \<Rightarrow> uint2 \<Rightarrow> 'f float2" where
  "maxMotion inp tid = snd (bounds inp tid)"

text \<open>Lines 83 to 89. The literals \<^verbatim>\<open>0\<close> and \<^verbatim>\<open>1\<close> are converted to float.\<close>

definition historyUV :: "'f arith \<Rightarrow> 'f Inputs \<Rightarrow> uint2 \<Rightarrow> 'f float2" where
  "historyUV ar inp tid =
     (f_sub ar (fst (uv ar inp tid)) (f_mul ar (fst (currMotion inp tid)) (fst (texelSize ar inp))),
      f_sub ar (snd (uv ar inp tid)) (f_mul ar (snd (currMotion inp tid)) (snd (texelSize ar inp))))"

definition validHistory :: "'f::linorder arith \<Rightarrow> 'f Inputs \<Rightarrow> uint2 \<Rightarrow> bool" where
  "validHistory ar inp tid =
     (if fst (historyUV ar inp tid) < f_lit ar 0 \<or> snd (historyUV ar inp tid) < f_lit ar 0 \<or>
         fst (historyUV ar inp tid) > f_lit ar 1 \<or> snd (historyUV ar inp tid) > f_lit ar 1
      then False else resetHistory inp = 0)"

text \<open>Lines 100 to 105.\<close>

definition historyMotion :: "'f arith \<Rightarrow> 'f Inputs \<Rightarrow> uint2 \<Rightarrow> 'f float2" where
  "historyMotion ar inp tid = f_sample2 ar (MotionHistory inp) (historyUV ar inp tid)"

definition historyConf :: "'f arith \<Rightarrow> 'f Inputs \<Rightarrow> uint2 \<Rightarrow> 'f" where
  "historyConf ar inp tid = f_sample ar (ConfHistory inp) (historyUV ar inp tid)"

definition clampedHistory :: "'f::linorder arith \<Rightarrow> 'f Inputs \<Rightarrow> uint2 \<Rightarrow> 'f float2" where
  "clampedHistory ar inp tid =
     clamp2 (historyMotion ar inp tid) (minMotion inp tid) (maxMotion inp tid)"

text \<open>Lines 111 to 135: the four assignments to \<^verbatim>\<open>alpha\<close>, in order.\<close>

definition diffLen :: "'f::linorder arith \<Rightarrow> 'f Inputs \<Rightarrow> uint2 \<Rightarrow> 'f" where
  "diffLen ar inp tid =
     f_length ar (f_sub ar (fst (clampedHistory ar inp tid)) (fst (currMotion inp tid)),
                  f_sub ar (snd (clampedHistory ar inp tid)) (snd (currMotion inp tid)))"

definition alpha :: "'f::linorder arith \<Rightarrow> 'f Inputs \<Rightarrow> uint2 \<Rightarrow> 'f" where
  "alpha ar inp tid =
     (let a0 = f_lit ar 0.94;
          a1 = (if diffLen ar inp tid > f_lit ar 2.0 then f_lit ar 0.8 else a0);
          a2 = (if diffLen ar inp tid > f_lit ar 10.0 then f_lit ar 0.5 else a1);
          a3 = (if currConf inp tid > f_lit ar 0.9 then f_mul ar a2 (f_lit ar 0.9) else a2)
      in if historyConf ar inp tid < f_lit ar 0.2 then f_lit ar 0.0 else a3)"

text \<open>Lines 140 to 147: the blend, then the deadzone on the motion.\<close>

definition blendedMotion :: "'f::linorder arith \<Rightarrow> 'f Inputs \<Rightarrow> uint2 \<Rightarrow> 'f float2" where
  "blendedMotion ar inp tid =
     lerp2 ar (currMotion inp tid) (clampedHistory ar inp tid) (alpha ar inp tid)"

definition finalConf :: "'f::linorder arith \<Rightarrow> 'f Inputs \<Rightarrow> uint2 \<Rightarrow> 'f" where
  "finalConf ar inp tid = f_lerp ar (currConf inp tid) (historyConf ar inp tid) (alpha ar inp tid)"

definition finalMotion :: "'f::linorder arith \<Rightarrow> 'f Inputs \<Rightarrow> uint2 \<Rightarrow> 'f float2" where
  "finalMotion ar inp tid =
     (if f_length ar (blendedMotion ar inp tid) < f_lit ar 0.1 then (f_lit ar 0, f_lit ar 0)
      else blendedMotion ar inp tid)"

text \<open>
  The entry point for one thread: the bounds check of line 49, the passthrough writes of
  lines 92 and 93, and the writes of lines 149 and 150.
\<close>

definition CSMain :: "'f::linorder arith \<Rightarrow> 'f Inputs \<Rightarrow> uint2 \<Rightarrow> 'f Outputs \<Rightarrow> 'f Outputs" where
  "CSMain ar inp tid out =
     (if fst tid \<ge> width inp \<or> snd tid \<ge> height inp then out
      else if \<not> validHistory ar inp tid then
        out\<lparr>MotionOut := Store (MotionOut out) tid (currMotion inp tid),
            ConfOut := Store (ConfOut out) tid (currConf inp tid)\<rparr>
      else
        out\<lparr>MotionOut := Store (MotionOut out) tid (finalMotion ar inp tid),
            ConfOut := Store (ConfOut out) tid (finalConf ar inp tid)\<rparr>)"

subsection \<open>The dispatch and the frame loop\<close>

text \<open>
  Modelled from the spec: the host's dispatch and frame loop are not part of the source.
  Line 44 fixes thread groups of 16 by 16 threads; a dispatch of \<open>gx\<close> by \<open>gy\<close> groups
  starts one thread for every coordinate below \<open>(16 * gx, 16 * gy)\<close>. The spec has the
  threads independent of one another (section 5), so the dispatch is modelled as running
  them one after the other. Across frames the spec has ``motionOut/confOut at frame N
  become the sole history input at frame N+1'' with ``double-buffered grids owned by the
  caller, swapped after each frame'': a frame binds the previous output as history and
  writes into the buffers that held the old history.
\<close>

definition threads :: "nat \<Rightarrow> nat \<Rightarrow> uint2 list" where
  "threads gx gy =
     concat (map (\<lambda>y. map (\<lambda>x. (of_nat x, of_nat y)) [0..<16 * gx]) [0..<16 * gy])"

definition Dispatch ::
    "'f::linorder arith \<Rightarrow> 'f Inputs \<Rightarrow> nat \<Rightarrow> nat \<Rightarrow> 'f Outputs \<Rightarrow> 'f Outputs" where
  "Dispatch ar inp gx gy out = fold (CSMain ar inp) (threads gx gy) out"

definition frame ::
    "'f::linorder arith \<Rightarrow> nat \<Rightarrow> nat \<Rightarrow> 'f Inputs \<times> 'f Outputs \<Rightarrow> 'f Inputs \<times> 'f Outputs" where
  "frame ar gx gy s =
     (let inp = fst s;
          out = Dispatch ar inp gx gy (snd s)
      in (inp\<lparr>MotionHistory := MotionOut out, ConfHistory := ConfOut out\<rparr>,
          \<lparr>MotionOut = MotionHistory inp, ConfOut = ConfHistory inp\<rparr>))"

subsection \<open>Exact arithmetic\<close>

text \<open>
  The arithmetic that does not round, on \<^typ>\<open>real\<close>: \<^verbatim>\<open>length\<close> is the Euclidean
  norm and \<^verbatim>\<open>lerp(a, b, t)\<close> is \<open>a + (b - a) * t\<close>, as section 4.1 of the spec
  writes it. It is the instance at which the examples are evaluated; their values are
  binary fractions, on which float arithmetic is exact as well.
\<close>

definition length2 :: "real float2 \<Rightarrow> real" where
  "length2 v = sqrt (fst v * fst v + snd v * snd v)"

definition lerp :: "real \<Rightarrow> real \<Rightarrow> real \<Rightarrow> real" where
  "lerp a b t = a + (b - a) * t"

text \<open>
  Modelled from the spec: the sampler state \<^verbatim>\<open>LinearClamp\<close> is bound by the host
  program, which is not part of the source. The spec has step 4 ``bilinearly sample
  historyMotion and historyConf at historyUV using edge-clamped addressing (no wraparound,
  no extrapolation past the border texel)''. The sample point in texel units is
  \<open>uv * size - 0.5\<close>; the four texels around it are read at coordinates clamped to the
  texture and blended by the fractional parts.
\<close>

definition tap :: "'a Texture2D \<Rightarrow> int2 \<Rightarrow> 'a" where
  "tap t p = Texels t (clamp_int2 p (0, 0) (uint (Width t) - 1, uint (Height t) - 1))"

definition SampleLevel :: "real Texture2D \<Rightarrow> real float2 \<Rightarrow> real" where
  "SampleLevel t q =
     (let px = fst q * real_of_int (uint (Width t)) - 0.5;
          py = snd q * real_of_int (uint (Height t)) - 0.5;
          x0 = \<lfloor>px\<rfloor>;
          y0 = \<lfloor>py\<rfloor>;
          fx = px - real_of_int x0;
          fy = py - real_of_int y0
      in lerp (lerp (tap t (x0, y0)) (tap t (x0 + 1, y0)) fx)
              (lerp (tap t (x0, y0 + 1)) (tap t (x0 + 1, y0 + 1)) fx) fy)"

text \<open>A two-channel texture is sampled channel by channel.\<close>

definition channel :: "('a \<Rightarrow> 'b) \<Rightarrow> 'a Texture2D \<Rightarrow> 'b Texture2D" where
  "channel f t = \<lparr>Width = Width t, Height = Height t, Texels = (\<lambda>p. f (Texels t p))\<rparr>"

definition SampleLevel2 :: "real float2 Texture2D \<Rightarrow> real float2 \<Rightarrow> real float2" where
  "SampleLevel2 t q = (SampleLevel (channel fst t) q, SampleLevel (channel snd t) q)"

definition exact :: "real arith" where
  "exact =
     \<lparr>f_of_uint = (\<lambda>n. real (unat n)), f_lit = (\<lambda>r. r),
      f_add = (\<lambda>a b. a + b), f_sub = (\<lambda>a b. a - b), f_mul = (\<lambda>a b. a * b),
      f_div = (\<lambda>a b. a / b), f_length = length2, f_lerp = lerp,
      f_sample = SampleLevel, f_sample2 = SampleLevel2\<rparr>"

subsection \<open>Vocabulary of the specification\<close>

text \<open>A thread is in the grid when the bounds check of line 49 lets it through.\<close>

definition in_grid :: "'f Inputs \<Rightarrow> uint2 \<Rightarrow> bool" where
  "in_grid inp tid \<longleftrightarrow> fst tid < width inp \<and> snd tid < height inp"

text \<open>The grid cell \<open>(x, y)\<close> of a thread.\<close>

definition pixel :: "uint2 \<Rightarrow> int2" where
  "pixel tid = (uint (fst tid), uint (snd tid))"

text \<open>
  Texture dimensions fit a non-negative HLSL int. Direct3D limits a 2D texture to 16384
  texels a side, so every texture the kernel can be bound to has this property.
\<close>

definition int_dims :: "'f Inputs \<Rightarrow> bool" where
  "int_dims inp \<longleftrightarrow> uint (width inp) < 2 ^ 31 \<and> uint (height inp) < 2 ^ 31"

text \<open>The spec's edge clamp, on mathematical integers: into \<open>[0, width-1] \<times> [0, height-1]\<close>.\<close>

definition edge_clamp :: "'f Inputs \<Rightarrow> int2 \<Rightarrow> int2" where
  "edge_clamp inp p =
     (min (max (fst p) 0) (uint (width inp) - 1), min (max (snd p) 0) (uint (height inp) - 1))"

text \<open>The current-frame motion over the 3 by 3 block around a pixel, edge-clamped.\<close>

definition neighborhood :: "'f Inputs \<Rightarrow> uint2 \<Rightarrow> 'f float2 set" where
  "neighborhood inp tid =
     (\<lambda>d. Texels (MotionCurr inp)
             (edge_clamp inp (uint (fst tid) + fst d, uint (snd tid) + snd d)))
       ` ({-1, 0, 1} \<times> {-1, 0, 1})"

text \<open>The coordinates that the loop of lines 64 to 76 reads, in order.\<close>

definition reads :: "'f Inputs \<Rightarrow> uint2 \<Rightarrow> int2 list" where
  "reads inp tid = map (nPos inp tid) offsets"

text \<open>A normalized coordinate outside the unit square, as line 87 tests it.\<close>

definition outside_unit :: "'f::linorder arith \<Rightarrow> 'f float2 \<Rightarrow> bool" where
  "outside_unit ar p \<longleftrightarrow>
     fst p < f_lit ar 0 \<or> snd p < f_lit ar 0 \<or> fst p > f_lit ar 1 \<or> snd p > f_lit ar 1"

text \<open>
  The blend weight as step 6 of the spec words it: a base weight by the deviation, where
  the 10.0 case overrides the 2.0 case; zero for a history confidence below 0.2, and
  otherwise the base weight times 0.9 or 1.
\<close>

definition base_weight :: "'f::linorder arith \<Rightarrow> 'f \<Rightarrow> 'f" where
  "base_weight ar dl =
     (if dl > f_lit ar 10.0 then f_lit ar 0.5
      else if dl > f_lit ar 2.0 then f_lit ar 0.8 else f_lit ar 0.94)"

definition alpha_spec :: "'f::linorder arith \<Rightarrow> 'f \<Rightarrow> 'f \<Rightarrow> 'f \<Rightarrow> 'f" where
  "alpha_spec ar dl cc hc =
     (if hc < f_lit ar 0.2 then f_lit ar 0
      else f_mul ar (base_weight ar dl) (if cc > f_lit ar 0.9 then f_lit ar 0.9 else f_lit ar 1))"

text \<open>
  What the claim about the weight needs of the arithmetic: a product with the literal 1 is
  its other factor, and the literals and products that a weight can be lie between the
  literals 0 and 1. Float arithmetic that rounds to nearest has both properties.
\<close>

definition weights :: "'f arith \<Rightarrow> 'f list" where
  "weights ar =
     [f_lit ar 0, f_lit ar 0.94, f_lit ar 0.8, f_lit ar 0.5,
      f_mul ar (f_lit ar 0.94) (f_lit ar 0.9), f_mul ar (f_lit ar 0.8) (f_lit ar 0.9),
      f_mul ar (f_lit ar 0.5) (f_lit ar 0.9)]"

definition unit_weights :: "'f::linorder arith \<Rightarrow> bool" where
  "unit_weights ar \<longleftrightarrow>
     f_mul ar (f_lit ar 0.94) (f_lit ar 1) = f_lit ar 0.94 \<and>
     f_mul ar (f_lit ar 0.8) (f_lit ar 1) = f_lit ar 0.8 \<and>
     f_mul ar (f_lit ar 0.5) (f_lit ar 1) = f_lit ar 0.5 \<and>
     list_all (\<lambda>w. f_lit ar 0 \<le> w \<and> w \<le> f_lit ar 1) (weights ar)"

text \<open>
  The state of the zero-motion scenario: every texture has the size of the current motion
  field, and inside the grid the current and the history motion are \<open>(0, 0)\<close> and both
  confidences are \<open>1\<close>; the history is not reset.
\<close>

definition same_size :: "'f Inputs \<Rightarrow> 'a Texture2D \<Rightarrow> bool" where
  "same_size inp t \<longleftrightarrow> Width t = width inp \<and> Height t = height inp"

definition constant_on_grid :: "'a Texture2D \<Rightarrow> 'a \<Rightarrow> bool" where
  "constant_on_grid t c \<longleftrightarrow> (\<forall>p. in_range t p \<longrightarrow> Texels t p = c)"

definition at_rest :: "real Inputs \<Rightarrow> bool" where
  "at_rest inp \<longleftrightarrow>
     int_dims inp \<and> resetHistory inp = 0 \<and>
     same_size inp (ConfCurr inp) \<and> same_size inp (MotionHistory inp) \<and>
     same_size inp (ConfHistory inp) \<and>
     constant_on_grid (MotionCurr inp) (0, 0) \<and> constant_on_grid (ConfCurr inp) 1 \<and>
     constant_on_grid (MotionHistory inp) (0, 0) \<and> constant_on_grid (ConfHistory inp) 1"

subsection \<open>Example inputs\<close>

text \<open>Textures of one value, scenes built from them, and a 16 by 16 grid in the
  manner of the scenario of section 8 of the spec. Their values are binary fractions.\<close>

definition uniform :: "32 word \<Rightarrow> 32 word \<Rightarrow> 'a \<Rightarrow> 'a Texture2D" where
  "uniform w h c = \<lparr>Width = w, Height = h, Texels = (\<lambda>p. c)\<rparr>"

definition scene ::
    "32 word \<Rightarrow> real float2 \<Rightarrow> real \<Rightarrow> real float2 \<Rightarrow> real \<Rightarrow> 32 word \<Rightarrow> real Inputs" where
  "scene n cm cc hm hc r =
     \<lparr>MotionCurr = uniform n n cm, ConfCurr = uniform n n cc,
      MotionHistory = uniform n n hm, ConfHistory = uniform n n hc,
      LumaPrev = uniform n n 0, LumaCurr = uniform n n 0,
      historyWeight = 0, confInfluence = 0, resetHistory = r, pad = 0\<rparr>"

definition blank :: "32 word \<Rightarrow> real Outputs" where
  "blank n = \<lparr>MotionOut = uniform n n (0, 0), ConfOut = uniform n n 0\<rparr>"

definition scenario :: "real Inputs" where
  "scenario =
     (scene 16 (3, 0) (1/2) (5, 0) 1 0)
       \<lparr>MotionCurr := \<lparr>Width = 16, Height = 16,
                       Texels = (\<lambda>p. if p = (7, 8) then (1, 0) else (3, 0))\<rparr>\<rparr>"

text \<open>The invariant of the frame loop in the zero-motion scenario: the inputs are at rest and
  the buffers to be written have the size of the grid.\<close>

definition resting :: "real Inputs \<times> real Outputs \<Rightarrow> bool" where
  "resting s \<longleftrightarrow>
     at_rest (fst s) \<and> same_size (fst s) (MotionOut (snd s)) \<and> same_size (fst s) (ConfOut (snd s))"

section \<open>Auxiliary facts\<close>

lemma sint_word_of_int_self:
  assumes "- 2147483648 \<le> k" "k < 2147483648"
  shows "sint (word_of_int k :: 32 word) = k"
proof -
  have "sint (word_of_int k :: 32 word) = signed_take_bit 31 k"
    by (simp add: signed_of_int)
  also have "\<dots> = k"
    using assms by (simp add: signed_take_bit_int_eq_self_iff)
  finally show ?thesis .
qed

lemma sint_offset:
  fixes x :: "32 word"
  assumes "- 2147483648 \<le> uint x + d" "uint x + d < 2147483648"
  shows "sint (x + word_of_int d) = uint x + d"
proof -
  have "x + word_of_int d = word_of_int (uint x + d)"
    by simp
  then show ?thesis
    using assms sint_word_of_int_self by presburger
qed

lemma sint_in_bounds:
  fixes x :: "32 word"
  assumes "uint x < 2147483648"
  shows "sint x = uint x"
proof -
  have "- 2147483648 \<le> uint x + 0"
    using uint_ge_0 [of x] by linarith
  moreover have "uint x + 0 < 2147483648"
    using assms by simp
  ultimately have "sint (x + word_of_int 0) = uint x + 0"
    by (rule sint_offset)
  then show ?thesis by simp
qed

lemma sint_pred:
  fixes w :: "32 word"
  assumes "0 < uint w" "uint w < 2147483648"
  shows "sint (w - 1) = uint w - 1"
  using sint_offset [of w "-1"] assms by simp

lemma in_grid_uint:
  assumes "in_grid inp tid"
  shows "uint (fst tid) < uint (width inp)" "uint (snd tid) < uint (height inp)"
    "0 < uint (width inp)" "0 < uint (height inp)"
  using assms by (auto simp: in_grid_def word_less_def intro: le_less_trans)

lemma sint_tid:
  assumes "in_grid inp tid" "int_dims inp"
  shows "(sint (fst tid), sint (snd tid)) = pixel tid"
  using in_grid_uint [OF assms(1)] assms(2)
  by (simp add: pixel_def int_dims_def sint_in_bounds)

lemma currMotion_texel:
  assumes "in_grid inp tid" "int_dims inp"
  shows "currMotion inp tid = Texels (MotionCurr inp) (pixel tid)"
  by (simp add: currMotion_def Load_def sint_tid [OF assms])

lemma currConf_texel:
  assumes "in_grid inp tid" "int_dims inp"
  shows "currConf inp tid = Texels (ConfCurr inp) (pixel tid)"
  by (simp add: currConf_def Load_def sint_tid [OF assms])

lemma nPos_edge_clamp:
  assumes "in_grid inp tid" "int_dims inp" "fst d \<in> {-1, 0, 1}" "snd d \<in> {-1, 0, 1}"
  shows "nPos inp tid d = edge_clamp inp (uint (fst tid) + fst d, uint (snd tid) + snd d)"
proof -
  note g = in_grid_uint [OF assms(1)]
  have w: "sint (width inp - 1) = uint (width inp) - 1"
    and h: "sint (height inp - 1) = uint (height inp) - 1"
    using g assms(2) by (simp_all add: int_dims_def sint_pred)
  have bx: "- 1 \<le> fst d" "fst d \<le> 1" and dy: "- 1 \<le> snd d" "snd d \<le> 1"
    using assms(3,4) by auto
  have dm: "uint (width inp) < 2147483648" "uint (height inp) < 2147483648"
    using assms(2) by (simp_all add: int_dims_def)
  have x: "sint (fst tid + word_of_int (fst d)) = uint (fst tid) + fst d"
    using g(1) dm(1) bx uint_ge_0 [of "fst tid"] by (intro sint_offset) linarith+
  have y: "sint (snd tid + word_of_int (snd d)) = uint (snd tid) + snd d"
    using g(2) dm(2) dy uint_ge_0 [of "snd tid"] by (intro sint_offset) linarith+
  show ?thesis
    by (simp add: nPos_def edge_clamp_def clamp_int2_def clamp_int_def w h x y)
qed

lemma edge_clamp_in_range:
  assumes "0 < uint (width inp)" "0 < uint (height inp)"
  shows "in_range (MotionCurr inp) (edge_clamp inp p)"
  using assms by (auto simp: in_range_def edge_clamp_def width_def height_def)

lemma CSMain_outside: "\<not> in_grid inp tid \<Longrightarrow> CSMain ar inp tid out = out"
  by (auto simp: CSMain_def in_grid_def not_less)

lemma CSMain_passthrough:
  "in_grid inp tid \<Longrightarrow> \<not> validHistory ar inp tid \<Longrightarrow>
   CSMain ar inp tid out =
     out\<lparr>MotionOut := Store (MotionOut out) tid (currMotion inp tid),
         ConfOut := Store (ConfOut out) tid (currConf inp tid)\<rparr>"
  by (auto simp: CSMain_def in_grid_def not_le)

lemma CSMain_blend:
  "in_grid inp tid \<Longrightarrow> validHistory ar inp tid \<Longrightarrow>
   CSMain ar inp tid out =
     out\<lparr>MotionOut := Store (MotionOut out) tid (finalMotion ar inp tid),
         ConfOut := Store (ConfOut out) tid (finalConf ar inp tid)\<rparr>"
  by (auto simp: CSMain_def in_grid_def not_le)

lemma Texels_Store: "Texels (Store t tid v) p = (if p = pixel tid then v else Texels t p)"
  by (simp add: Store_def pixel_def)

lemma validHistory_iff:
  "validHistory ar inp tid \<longleftrightarrow>
     resetHistory inp = 0 \<and> \<not> outside_unit ar (historyUV ar inp tid)"
  by (simp add: validHistory_def outside_unit_def)

lemma loop_body_history_free:
  "loop_body (inp\<lparr>MotionHistory := hm, ConfHistory := hc\<rparr>) tid = loop_body inp tid"
  by (simp add: fun_eq_iff loop_body_def nPos_def width_def height_def)

lemma history_free:
  "width (inp\<lparr>MotionHistory := hm, ConfHistory := hc\<rparr>) = width inp"
  "height (inp\<lparr>MotionHistory := hm, ConfHistory := hc\<rparr>) = height inp"
  "in_grid (inp\<lparr>MotionHistory := hm, ConfHistory := hc\<rparr>) tid = in_grid inp tid"
  "currMotion (inp\<lparr>MotionHistory := hm, ConfHistory := hc\<rparr>) tid = currMotion inp tid"
  "currConf (inp\<lparr>MotionHistory := hm, ConfHistory := hc\<rparr>) tid = currConf inp tid"
  "historyUV ar (inp\<lparr>MotionHistory := hm, ConfHistory := hc\<rparr>) tid = historyUV ar inp tid"
  "validHistory ar (inp\<lparr>MotionHistory := hm, ConfHistory := hc\<rparr>) tid = validHistory ar inp tid"
  "bounds (inp\<lparr>MotionHistory := hm, ConfHistory := hc\<rparr>) tid = bounds inp tid"
  by (simp_all add: width_def height_def in_grid_def currMotion_def currConf_def historyUV_def
      validHistory_def uv_def texelSize_def bounds_def loop_body_history_free)

lemmas scene_simps = scene_def uniform_def blank_def in_grid_def int_dims_def width_def
  height_def historyUV_def uv_def texelSize_def currMotion_def currConf_def Load_def
  outside_unit_def pixel_def exact_def

lemma alpha_closed:
  "alpha ar inp tid =
     (if historyConf ar inp tid < f_lit ar 0.2 then f_lit ar 0
      else if currConf inp tid > f_lit ar 0.9
           then f_mul ar (base_weight ar (diffLen ar inp tid)) (f_lit ar 0.9)
           else base_weight ar (diffLen ar inp tid))"
  by (simp add: alpha_def base_weight_def Let_def)

lemma alpha_in_weights: "alpha ar inp tid \<in> set (weights ar)"
  by (simp add: alpha_closed base_weight_def weights_def)

lemma alpha_refines:
  assumes "unit_weights ar"
  shows "alpha ar inp tid =
     alpha_spec ar (diffLen ar inp tid) (currConf inp tid) (historyConf ar inp tid)"
  using assms by (simp add: alpha_closed alpha_spec_def base_weight_def unit_weights_def)

lemma alpha_range:
  assumes "unit_weights ar"
  shows "f_lit ar 0 \<le> alpha ar inp tid \<and> alpha ar inp tid \<le> f_lit ar 1"
proof -
  have "list_all (\<lambda>w. f_lit ar 0 \<le> w \<and> w \<le> f_lit ar 1) (weights ar)"
    using assms by (simp add: unit_weights_def)
  then show ?thesis
    using alpha_in_weights [of ar inp tid] unfolding list_all_iff by blast
qed

lemma offsets_eq: "offsets = [(-1,-1), (0,-1), (1,-1), (-1,0), (0,0), (1,0), (-1,1), (0,1), (1,1)]"
  by (simp add: offsets_def)

lemma set_offsets: "set offsets = {-1, 0, 1} \<times> {-1, 0, 1}"
  by (auto simp: offsets_eq)

lemma bounds_reads:
  "bounds inp tid =
     fold (\<lambda>p mm. (min2 (fst mm) (Load (MotionCurr inp) p), max2 (snd mm) (Load (MotionCurr inp) p)))
       (reads inp tid) (currMotion inp tid, currMotion inp tid)"
  by (simp add: bounds_def reads_def fold_map comp_def loop_body_def [abs_def] Let_def)

lemma reads_edge_clamp:
  assumes "in_grid inp tid" and "int_dims inp"
  shows "reads inp tid =
     map (\<lambda>d. edge_clamp inp (uint (fst tid) + fst d, uint (snd tid) + snd d)) offsets"
  unfolding reads_def
proof (rule map_cong [OF refl])
  fix d assume "d \<in> set offsets"
  then have "fst d \<in> {-1, 0, 1}" "snd d \<in> {-1, 0, 1}"
    by (auto simp: set_offsets)
  then show "nPos inp tid d = edge_clamp inp (uint (fst tid) + fst d, uint (snd tid) + snd d)"
    by (rule nPos_edge_clamp [OF assms])
qed

lemma Min_insert_min:
  assumes "finite S"
  shows "Min (insert (min a b) S) = Min (insert (a::'a::linorder) (insert b S))"
proof (cases "S = {}")
  case True
  then show ?thesis by simp
next
  case False
  with assms show ?thesis by (simp add: min.assoc)
qed

lemma Max_insert_max:
  assumes "finite S"
  shows "Max (insert (max a b) S) = Max (insert (a::'a::linorder) (insert b S))"
proof (cases "S = {}")
  case True
  then show ?thesis by simp
next
  case False
  with assms show ?thesis by (simp add: max.assoc)
qed

lemma fold_min_fst:
  "fst (fst (fold (loop_body inp tid) ds mm)) =
     Min (insert (fst (fst mm)) ((\<lambda>d. fst (Load (MotionCurr inp) (nPos inp tid d))) ` set ds))"
proof (induction ds arbitrary: mm)
  case Nil
  then show ?case by simp
next
  case (Cons d ds)
  have "fst (fst (loop_body inp tid d mm)) =
      min (fst (fst mm)) (fst (Load (MotionCurr inp) (nPos inp tid d)))"
    by (simp add: loop_body_def Let_def min2_def)
  then show ?case
    by (simp add: Cons.IH Min_insert_min)
qed

lemma fold_min_snd:
  "snd (fst (fold (loop_body inp tid) ds mm)) =
     Min (insert (snd (fst mm)) ((\<lambda>d. snd (Load (MotionCurr inp) (nPos inp tid d))) ` set ds))"
proof (induction ds arbitrary: mm)
  case Nil
  then show ?case by simp
next
  case (Cons d ds)
  have "snd (fst (loop_body inp tid d mm)) =
      min (snd (fst mm)) (snd (Load (MotionCurr inp) (nPos inp tid d)))"
    by (simp add: loop_body_def Let_def min2_def)
  then show ?case
    by (simp add: Cons.IH Min_insert_min)
qed

lemma fold_max_fst:
  "fst (snd (fold (loop_body inp tid) ds mm)) =
     Max (insert (fst (snd mm)) ((\<lambda>d. fst (Load (MotionCurr inp) (nPos inp tid d))) ` set ds))"
proof (induction ds arbitrary: mm)
  case Nil
  then show ?case by simp
next
  case (Cons d ds)
  have "fst (snd (loop_body inp tid d mm)) =
      max (fst (snd mm)) (fst (Load (MotionCurr inp) (nPos inp tid d)))"
    by (simp add: loop_body_def Let_def max2_def)
  then show ?case
    by (simp add: Cons.IH Max_insert_max)
qed

lemma fold_max_snd:
  "snd (snd (fold (loop_body inp tid) ds mm)) =
     Max (insert (snd (snd mm)) ((\<lambda>d. snd (Load (MotionCurr inp) (nPos inp tid d))) ` set ds))"
proof (induction ds arbitrary: mm)
  case Nil
  then show ?case by simp
next
  case (Cons d ds)
  have "snd (snd (loop_body inp tid d mm)) =
      max (snd (snd mm)) (snd (Load (MotionCurr inp) (nPos inp tid d)))"
    by (simp add: loop_body_def Let_def max2_def)
  then show ?case
    by (simp add: Cons.IH Max_insert_max)
qed

text \<open>The values the loop loads are the neighbourhood, and the start value is one of them.\<close>

lemma loaded_neighborhood:
  assumes "in_grid inp tid" and "int_dims inp"
  shows "(\<lambda>d. Load (MotionCurr inp) (nPos inp tid d)) ` set offsets = neighborhood inp tid"
  unfolding neighborhood_def set_offsets
  by (rule image_cong [OF refl]) (auto simp: Load_def nPos_edge_clamp [OF assms])

lemma centre_in_neighborhood:
  assumes "in_grid inp tid" and "int_dims inp"
  shows "currMotion inp tid \<in> neighborhood inp tid"
proof -
  note g = in_grid_uint [OF assms(1)]
  have "edge_clamp inp (uint (fst tid) + 0, uint (snd tid) + 0) = pixel tid"
    using g uint_ge_0 [of "fst tid"] uint_ge_0 [of "snd tid"]
    by (simp add: edge_clamp_def pixel_def)
  then have "currMotion inp tid =
      (\<lambda>d. Texels (MotionCurr inp)
             (edge_clamp inp (uint (fst tid) + fst d, uint (snd tid) + snd d))) (0, 0)"
    by (simp add: currMotion_texel [OF assms])
  then show ?thesis
    unfolding neighborhood_def by (intro image_eqI [where x = "(0, 0)"]) auto
qed

lemma bounds_neighborhood:
  assumes "in_grid inp tid" and "int_dims inp"
  shows "fst (minMotion inp tid) = Min (fst ` neighborhood inp tid)"
    and "snd (minMotion inp tid) = Min (snd ` neighborhood inp tid)"
    and "fst (maxMotion inp tid) = Max (fst ` neighborhood inp tid)"
    and "snd (maxMotion inp tid) = Max (snd ` neighborhood inp tid)"
proof -
  let ?L = "\<lambda>d. Load (MotionCurr inp) (nPos inp tid d)"
  have im: "(\<lambda>d. fst (?L d)) ` set offsets = fst ` neighborhood inp tid"
    "(\<lambda>d. snd (?L d)) ` set offsets = snd ` neighborhood inp tid"
    unfolding loaded_neighborhood [OF assms, symmetric] by (simp_all add: image_image)
  have c: "fst (currMotion inp tid) \<in> fst ` neighborhood inp tid"
    "snd (currMotion inp tid) \<in> snd ` neighborhood inp tid"
    using centre_in_neighborhood [OF assms] by simp_all
  show "fst (minMotion inp tid) = Min (fst ` neighborhood inp tid)"
    by (simp add: minMotion_def bounds_def fold_min_fst im insert_absorb [OF c(1)])
  show "snd (minMotion inp tid) = Min (snd ` neighborhood inp tid)"
    by (simp add: minMotion_def bounds_def fold_min_snd im insert_absorb [OF c(2)])
  show "fst (maxMotion inp tid) = Max (fst ` neighborhood inp tid)"
    by (simp add: maxMotion_def bounds_def fold_max_fst im insert_absorb [OF c(1)])
  show "snd (maxMotion inp tid) = Max (snd ` neighborhood inp tid)"
    by (simp add: maxMotion_def bounds_def fold_max_snd im insert_absorb [OF c(2)])
qed

lemma finite_neighborhood: "finite (neighborhood inp tid)"
  by (simp add: neighborhood_def)

lemma min_le_max:
  "fst (minMotion inp tid) \<le> fst (maxMotion inp tid)"
  "snd (minMotion inp tid) \<le> snd (maxMotion inp tid)"
proof -
  let ?L = "\<lambda>d. Load (MotionCurr inp) (nPos inp tid d)"
  let ?c = "currMotion inp tid"
  have "fst (minMotion inp tid) \<le> fst ?c"
    by (simp add: minMotion_def bounds_def fold_min_fst)
  moreover have "fst ?c \<le> fst (maxMotion inp tid)"
    by (simp add: maxMotion_def bounds_def fold_max_fst)
  ultimately show "fst (minMotion inp tid) \<le> fst (maxMotion inp tid)"
    by (rule order_trans)
  have "snd (minMotion inp tid) \<le> snd ?c"
    by (simp add: minMotion_def bounds_def fold_min_snd)
  moreover have "snd ?c \<le> snd (maxMotion inp tid)"
    by (simp add: maxMotion_def bounds_def fold_max_snd)
  ultimately show "snd (minMotion inp tid) \<le> snd (maxMotion inp tid)"
    by (rule order_trans)
qed

lemma exact_simps:
  "f_of_uint exact n = real (unat n)" "f_lit exact r = r"
  "f_add exact a b = a + b" "f_sub exact a b = a - b"
  "f_mul exact a b = a * b" "f_div exact a b = a / b"
  "f_length exact = length2" "f_lerp exact = lerp"
  "f_sample exact = SampleLevel" "f_sample2 exact = SampleLevel2"
  by (simp_all add: exact_def)

lemma unit_weights_exact: "unit_weights exact"
  by (simp add: unit_weights_def weights_def exact_simps)

lemma length2_less_iff:
  assumes "0 < r"
  shows "length2 v < r \<longleftrightarrow> fst v * fst v + snd v * snd v < r * r"
proof -
  have "sqrt (r * r) = r"
    using assms by simp
  then have "length2 v < r \<longleftrightarrow> sqrt (fst v * fst v + snd v * snd v) < sqrt (r * r)"
    by (simp add: length2_def)
  then show ?thesis
    by (simp only: real_sqrt_less_iff)
qed

lemma lerp_zero: "lerp a b 0 = a"
  by (simp add: lerp_def)

lemma lerp_same: "lerp a a t = a"
  by (simp add: lerp_def)

lemma tap_uniform: "tap (uniform w h c) p = c"
  by (simp add: tap_def uniform_def)

lemma SampleLevel_uniform: "SampleLevel (uniform w h c) q = c"
  by (simp add: SampleLevel_def Let_def tap_uniform lerp_same)

lemma channel_uniform: "channel f (uniform w h c) = uniform w h (f c)"
  by (simp add: channel_def uniform_def)

lemma SampleLevel2_uniform: "SampleLevel2 (uniform w h c) q = c"
  by (simp add: SampleLevel2_def channel_uniform SampleLevel_uniform)

lemma Load_uniform: "Load (uniform w h c) p = c"
  by (simp add: Load_def uniform_def)

lemma bounds_uniform: "bounds (scene n cm cc hm hc r) tid = (cm, cm)"
  by (simp add: bounds_def offsets_def loop_body_def Let_def currMotion_def scene_def
      Load_uniform min2_def max2_def)

lemma scene_curr:
  "currMotion (scene n cm cc hm hc r) tid = cm"
  "currConf (scene n cm cc hm hc r) tid = cc"
  "historyMotion exact (scene n cm cc hm hc r) tid = hm"
  "historyConf exact (scene n cm cc hm hc r) tid = hc"
  by (simp_all add: currMotion_def currConf_def historyMotion_def historyConf_def
      scene_def Load_uniform SampleLevel_uniform SampleLevel2_uniform exact_simps)

lemma scene_clamped:
  "minMotion (scene n cm cc hm hc r) tid = cm"
  "maxMotion (scene n cm cc hm hc r) tid = cm"
  "clampedHistory exact (scene n cm cc hm hc r) tid = cm"
  by (simp_all add: minMotion_def maxMotion_def clampedHistory_def bounds_uniform clamp2_def
      min2_def max2_def)

lemmas scene_locals = scene_curr scene_clamped

lemma scene_valid: "validHistory exact (scene 4 (1/16, 0) cc hm hc 0) (1, 1)"
  by (simp add: validHistory_def scene_simps)

lemma scene_in_grid: "in_grid (scene 4 cm cc hm hc r) (1, 1)"
  by (simp add: scene_simps)

lemma scene_int_dims: "int_dims (scene 4 cm cc hm hc r)"
  by (simp add: scene_simps)

lemma tiny: "length2 (1/16, 0) < 0.1"
  by (subst length2_less_iff) simp_all

lemma scene_blended:
  "lerp2 exact (currMotion (scene n cm cc hm hc r) tid)
     (clampedHistory exact (scene n cm cc hm hc r) tid) a = cm"
  by (simp add: scene_locals lerp2_def lerp_same exact_simps)

lemma scene_short:
  "f_length exact (lerp2 exact (currMotion (scene n (1/16, 0) cc hm hc r) tid)
     (clampedHistory exact (scene n (1/16, 0) cc hm hc r) tid) a) < f_lit exact 0.1"
  using tiny by (simp only: scene_blended exact_simps)

lemma scenario_hyps:
  "in_grid scenario (8, 8)" "int_dims scenario" "validHistory exact scenario (8, 8)"
  by (simp_all add: scenario_def validHistory_def scene_simps)

lemma scenario_bounds: "bounds scenario (8, 8) = ((1, 0), (3, 0))"
  by (simp add: bounds_def offsets_eq loop_body_def Let_def nPos_def clamp_int2_def clamp_int_def
      currMotion_def Load_def scenario_def scene_def uniform_def width_def height_def min2_def
      max2_def)

lemma scenario_history: "historyMotion exact scenario (8, 8) = (5, 0)"
  by (simp add: historyMotion_def scenario_def scene_def SampleLevel2_uniform exact_simps)

lemma scenario_clamped: "clampedHistory exact scenario (8, 8) = (3, 0)"
  by (simp add: clampedHistory_def minMotion_def maxMotion_def scenario_bounds scenario_history
      clamp2_def min2_def max2_def)

lemma loop_body_unused:
  "loop_body (inp\<lparr>LumaPrev := lp, LumaCurr := lc, historyWeight := hw, confInfluence := ci\<rparr>) tid
     = loop_body inp tid"
  by (simp add: fun_eq_iff loop_body_def nPos_def width_def height_def)

lemma locals_unused:
  "validHistory ar (inp\<lparr>LumaPrev := lp, LumaCurr := lc, historyWeight := hw, confInfluence := ci\<rparr>) tid
     = validHistory ar inp tid"
  "currMotion (inp\<lparr>LumaPrev := lp, LumaCurr := lc, historyWeight := hw, confInfluence := ci\<rparr>) tid
     = currMotion inp tid"
  "currConf (inp\<lparr>LumaPrev := lp, LumaCurr := lc, historyWeight := hw, confInfluence := ci\<rparr>) tid
     = currConf inp tid"
  "finalMotion ar (inp\<lparr>LumaPrev := lp, LumaCurr := lc, historyWeight := hw, confInfluence := ci\<rparr>) tid
     = finalMotion ar inp tid"
  "finalConf ar (inp\<lparr>LumaPrev := lp, LumaCurr := lc, historyWeight := hw, confInfluence := ci\<rparr>) tid
     = finalConf ar inp tid"
  by (simp_all add: validHistory_def historyUV_def uv_def texelSize_def width_def height_def
      currMotion_def currConf_def finalMotion_def finalConf_def blendedMotion_def alpha_def
      diffLen_def clampedHistory_def historyMotion_def historyConf_def minMotion_def
      maxMotion_def bounds_def loop_body_unused)

lemma CSMain_unused:
  "CSMain ar (inp\<lparr>LumaPrev := lp, LumaCurr := lc, historyWeight := hw, confInfluence := ci\<rparr>) tid out
     = CSMain ar inp tid out"
  unfolding CSMain_def locals_unused by (simp add: width_def height_def)

lemma CSMain_written:
  assumes "in_grid inp tid"
  shows "Texels (MotionOut (CSMain ar inp tid out)) (pixel tid) =
           (if validHistory ar inp tid then finalMotion ar inp tid else currMotion inp tid)"
    and "Texels (ConfOut (CSMain ar inp tid out)) (pixel tid) =
           (if validHistory ar inp tid then finalConf ar inp tid else currConf inp tid)"
  using assms by (simp_all add: CSMain_passthrough CSMain_blend Texels_Store)

lemma in_grid_in_range:
  assumes "in_grid inp tid"
  shows "in_range (MotionCurr inp) (pixel tid)"
  using in_grid_uint [OF assms] by (simp add: in_range_def pixel_def width_def height_def)

lemma CSMain_elsewhere:
  assumes "q \<noteq> pixel tid"
  shows "Texels (MotionOut (CSMain ar inp tid out)) q = Texels (MotionOut out) q"
    and "Texels (ConfOut (CSMain ar inp tid out)) q = Texels (ConfOut out) q"
  using assms by (simp_all add: CSMain_def Texels_Store)

lemma CSMain_off_grid:
  assumes "\<not> in_range (MotionCurr inp) p"
  shows "Texels (MotionOut (CSMain ar inp tid out)) p = Texels (MotionOut out) p"
    and "Texels (ConfOut (CSMain ar inp tid out)) p = Texels (ConfOut out) p"
proof -
  have "\<not> in_grid inp tid \<or> p \<noteq> pixel tid"
    using assms in_grid_in_range by blast
  then show "Texels (MotionOut (CSMain ar inp tid out)) p = Texels (MotionOut out) p"
    and "Texels (ConfOut (CSMain ar inp tid out)) p = Texels (ConfOut out) p"
    by (auto simp: CSMain_outside CSMain_elsewhere)
qed

lemma fold_off_grid:
  assumes "\<not> in_range (MotionCurr inp) p"
  shows "Texels (MotionOut (fold (CSMain ar inp) tids out)) p = Texels (MotionOut out) p \<and>
         Texels (ConfOut (fold (CSMain ar inp) tids out)) p = Texels (ConfOut out) p"
  by (induction tids arbitrary: out) (simp_all add: CSMain_off_grid [OF assms])

lemma CSMain_in_grid:
  assumes "in_grid inp tid"
  shows "CSMain ar inp tid out =
     out\<lparr>MotionOut := Store (MotionOut out) tid
             (if validHistory ar inp tid then finalMotion ar inp tid else currMotion inp tid),
         ConfOut := Store (ConfOut out) tid
             (if validHistory ar inp tid then finalConf ar inp tid else currConf inp tid)\<rparr>"
  using assms by (simp add: CSMain_passthrough CSMain_blend)

lemma constant_on_gridD:
  assumes "constant_on_grid t c" and "in_range t p"
  shows "Texels t p = c"
  using assms unfolding constant_on_grid_def by blast

lemma tap_constant:
  assumes "constant_on_grid t c" and "0 < uint (Width t)" and "0 < uint (Height t)"
  shows "tap t p = c"
proof -
  have "in_range t (clamp_int2 p (0, 0) (uint (Width t) - 1, uint (Height t) - 1))"
    using assms(2,3) by (auto simp: in_range_def clamp_int2_def clamp_int_def)
  then show ?thesis
    unfolding tap_def by (rule constant_on_gridD [OF assms(1)])
qed

lemma SampleLevel_constant:
  assumes "constant_on_grid t c" and "0 < uint (Width t)" and "0 < uint (Height t)"
  shows "SampleLevel t q = c"
  by (simp add: SampleLevel_def Let_def tap_constant [OF assms] lerp_same)

lemma channel_constant:
  assumes "constant_on_grid t c"
  shows "constant_on_grid (channel f t) (f c)"
  using assms by (simp add: constant_on_grid_def channel_def in_range_def)

lemma SampleLevel2_constant:
  assumes "constant_on_grid t c" and "0 < uint (Width t)" and "0 < uint (Height t)"
  shows "SampleLevel2 t q = c"
proof -
  have d: "0 < uint (Width (channel fst t))" "0 < uint (Height (channel fst t))"
    "0 < uint (Width (channel snd t))" "0 < uint (Height (channel snd t))"
    using assms(2,3) by (simp_all add: channel_def)
  show ?thesis
    by (simp add: SampleLevel2_def
        SampleLevel_constant [OF channel_constant [OF assms(1)] d(1,2)]
        SampleLevel_constant [OF channel_constant [OF assms(1)] d(3,4)])
qed

lemma same_size_in_range:
  assumes "same_size inp t"
  shows "in_range t p = in_range (MotionCurr inp) p"
  using assms by (simp add: same_size_def in_range_def width_def height_def)

lemma rest_locals:
  assumes "at_rest inp" and "in_grid inp tid"
  shows "currMotion inp tid = (0, 0)" and "currConf inp tid = 1"
    and "historyMotion exact inp tid = (0, 0)" and "historyConf exact inp tid = 1"
    and "minMotion inp tid = (0, 0)" and "maxMotion inp tid = (0, 0)"
proof -
  note g = in_grid_uint [OF assms(2)]
  have d: "int_dims inp"
    using assms(1) by (simp add: at_rest_def)
  have r: "in_range (MotionCurr inp) (pixel tid)"
    by (rule in_grid_in_range [OF assms(2)])
  have k: "constant_on_grid (MotionCurr inp) (0, 0)" "constant_on_grid (ConfCurr inp) 1"
    using assms(1) by (simp_all add: at_rest_def)
  show cm: "currMotion inp tid = (0, 0)"
    unfolding currMotion_texel [OF assms(2) d] by (rule constant_on_gridD [OF k(1) r])
  have "same_size inp (ConfCurr inp)"
    using assms(1) by (simp add: at_rest_def)
  then have "in_range (ConfCurr inp) (pixel tid)"
    using r by (simp only: same_size_in_range)
  then show "currConf inp tid = 1"
    unfolding currConf_texel [OF assms(2) d] by (rule constant_on_gridD [OF k(2)])
  have hm: "constant_on_grid (MotionHistory inp) (0, 0)"
    "0 < uint (Width (MotionHistory inp))" "0 < uint (Height (MotionHistory inp))"
    using assms(1) g(3,4) by (simp_all add: at_rest_def same_size_def)
  show "historyMotion exact inp tid = (0, 0)"
    by (simp add: historyMotion_def SampleLevel2_constant [OF hm] exact_simps)
  have hc: "constant_on_grid (ConfHistory inp) 1"
    "0 < uint (Width (ConfHistory inp))" "0 < uint (Height (ConfHistory inp))"
    using assms(1) g(3,4) by (simp_all add: at_rest_def same_size_def)
  show "historyConf exact inp tid = 1"
    by (simp add: historyConf_def SampleLevel_constant [OF hc] exact_simps)
  have "neighborhood inp tid \<subseteq> {(0, 0)}"
    using constant_on_gridD [OF k(1) edge_clamp_in_range [OF g(3,4)]]
    by (auto simp: neighborhood_def)
  moreover have "currMotion inp tid \<in> neighborhood inp tid"
    by (rule centre_in_neighborhood [OF assms(2) d])
  ultimately have n: "neighborhood inp tid = {(0, 0)}"
    by auto
  show "minMotion inp tid = (0, 0)"
    by (rule prod_eqI) (simp_all add: bounds_neighborhood [OF assms(2) d] n)
  show "maxMotion inp tid = (0, 0)"
    by (rule prod_eqI) (simp_all add: bounds_neighborhood [OF assms(2) d] n)
qed

lemma rest_valid:
  assumes "at_rest inp" and "in_grid inp tid"
  shows "validHistory exact inp tid"
proof -
  have lt: "unat (fst tid) < unat (width inp)" "unat (snd tid) < unat (height inp)"
    using assms(2) by (simp_all add: in_grid_def word_less_nat_alt)
  have frac: "0 \<le> (real x + 0.5) * (1 / real w) \<and> (real x + 0.5) * (1 / real w) \<le> 1"
    if "x < w" for x w :: nat
  proof -
    have "real x + 0.5 \<le> real w"
      using that by simp
    moreover have "0 < real w"
      using that by simp
    ultimately show ?thesis
      by (simp add: field_simps)
  qed
  have r: "resetHistory inp = 0"
    using assms(1) by (simp add: at_rest_def)
  show ?thesis
    using frac [OF lt(1)] frac [OF lt(2)] r
    by (simp add: validHistory_def historyUV_def uv_def texelSize_def rest_locals [OF assms]
        not_less exact_simps)
qed

lemma rest_final:
  assumes "at_rest inp" and "in_grid inp tid"
  shows "finalMotion exact inp tid = (0, 0)" and "finalConf exact inp tid = 1"
proof -
  have "clampedHistory exact inp tid = (0, 0)"
    by (simp add: clampedHistory_def rest_locals [OF assms] clamp2_def min2_def max2_def)
  then have "blendedMotion exact inp tid = (0, 0)"
    by (simp add: blendedMotion_def rest_locals [OF assms] lerp2_def lerp_same exact_simps)
  then show "finalMotion exact inp tid = (0, 0)"
    by (simp add: finalMotion_def exact_simps)
  show "finalConf exact inp tid = 1"
    by (simp add: finalConf_def rest_locals [OF assms] lerp_same exact_simps)
qed

lemma rest_CSMain:
  assumes "at_rest inp" and "in_grid inp tid"
  shows "CSMain exact inp tid out =
     out\<lparr>MotionOut := Store (MotionOut out) tid (0, 0), ConfOut := Store (ConfOut out) tid 1\<rparr>"
  by (simp add: CSMain_blend [OF assms(2) rest_valid [OF assms]] rest_final [OF assms])

lemma rest_fold:
  assumes "at_rest inp"
  shows "Texels (MotionOut (fold (CSMain exact inp) ts out)) p =
           (if \<exists>t \<in> set ts. in_grid inp t \<and> pixel t = p then (0, 0)
            else Texels (MotionOut out) p) \<and>
         Texels (ConfOut (fold (CSMain exact inp) ts out)) p =
           (if \<exists>t \<in> set ts. in_grid inp t \<and> pixel t = p then 1
            else Texels (ConfOut out) p)"
proof (induction ts arbitrary: out)
  case Nil
  then show ?case by simp
next
  case (Cons t ts)
  show ?case
  proof (cases "in_grid inp t")
    case True
    then show ?thesis
      by (auto simp: Cons.IH rest_CSMain [OF assms True] Texels_Store)
  next
    case False
    then show ?thesis
      by (auto simp: Cons.IH CSMain_outside)
  qed
qed

lemma CSMain_size:
  "Width (MotionOut (CSMain exact inp tid out)) = Width (MotionOut out)"
  "Height (MotionOut (CSMain exact inp tid out)) = Height (MotionOut out)"
  "Width (ConfOut (CSMain exact inp tid out)) = Width (ConfOut out)"
  "Height (ConfOut (CSMain exact inp tid out)) = Height (ConfOut out)"
  by (simp_all add: CSMain_def Store_def)

lemma fold_size:
  "Width (MotionOut (fold (CSMain exact inp) ts out)) = Width (MotionOut out) \<and>
   Height (MotionOut (fold (CSMain exact inp) ts out)) = Height (MotionOut out) \<and>
   Width (ConfOut (fold (CSMain exact inp) ts out)) = Width (ConfOut out) \<and>
   Height (ConfOut (fold (CSMain exact inp) ts out)) = Height (ConfOut out)"
  by (induction ts arbitrary: out) (simp_all add: CSMain_size)

lemma threads_mem:
  assumes "x < 16 * gx" and "y < 16 * gy"
  shows "((of_nat x, of_nat y) :: uint2) \<in> set (threads gx gy)"
proof -
  let ?row = "\<lambda>y. map (\<lambda>x. ((of_nat x, of_nat y) :: uint2)) [0..<16 * gx]"
  have a: "x \<in> set [0..<16 * gx]" "y \<in> set [0..<16 * gy]"
    using assms by simp_all
  have "((of_nat x, of_nat y) :: uint2) \<in> (\<lambda>x. (of_nat x, of_nat y)) ` set [0..<16 * gx]"
    using a(1) by (rule imageI)
  then have b: "((of_nat x, of_nat y) :: uint2) \<in> set (?row y)"
    by (simp only: set_map)
  have "?row y \<in> ?row ` set [0..<16 * gy]"
    using a(2) by (rule imageI)
  then have c: "?row y \<in> set (map ?row [0..<16 * gy])"
    by (simp only: set_map)
  show ?thesis
    unfolding threads_def set_concat using c b by (rule UN_I [where B = set])
qed

lemma threads_cover:
  assumes "in_range (MotionCurr inp) p"
    and "unat (width inp) \<le> 16 * gx" and "unat (height inp) \<le> 16 * gy"
  shows "\<exists>t \<in> set (threads gx gy). in_grid inp t \<and> pixel t = p"
proof -
  let ?x = "nat (fst p)" and ?y = "nat (snd p)"
  let ?t = "(of_nat ?x, of_nat ?y) :: uint2"
  have b: "0 \<le> fst p" "fst p < uint (width inp)" "0 \<le> snd p" "snd p < uint (height inp)"
    using assms(1) by (simp_all add: in_range_def width_def height_def)
  have ux: "uint (of_nat ?x :: 32 word) = fst p"
    using b(1,2) uint_lt2p [of "width inp"] by (simp add: uint_word_of_int take_bit_int_eq_self)
  have uy: "uint (of_nat ?y :: 32 word) = snd p"
    using b(3,4) uint_lt2p [of "height inp"] by (simp add: uint_word_of_int take_bit_int_eq_self)
  have "?x < nat (uint (width inp))" "?y < nat (uint (height inp))"
    using b by linarith+
  then have "?x < unat (width inp)" "?y < unat (height inp)"
    by (simp_all only: unat_eq_nat_uint)
  then have "?x < 16 * gx" "?y < 16 * gy"
    using assms(2,3) by simp_all
  then have "?t \<in> set (threads gx gy)"
    by (rule threads_mem)
  moreover have "in_grid inp ?t"
    using b(2,4) by (simp add: in_grid_def word_less_def ux uy)
  moreover have "pixel ?t = p"
    by (simp add: pixel_def ux uy)
  ultimately show ?thesis
    by blast
qed

lemma rest_Dispatch:
  assumes "at_rest inp" and "in_range (MotionCurr inp) p"
    and "unat (width inp) \<le> 16 * gx" and "unat (height inp) \<le> 16 * gy"
  shows "Texels (MotionOut (Dispatch exact inp gx gy out)) p = (0, 0)"
    and "Texels (ConfOut (Dispatch exact inp gx gy out)) p = 1"
  using threads_cover [OF assms(2,3,4)] rest_fold [OF assms(1), of "threads gx gy" out p]
  by (simp_all add: Dispatch_def)

lemma frame_resting:
  assumes "resting s"
    and "unat (width (fst s)) \<le> 16 * gx" and "unat (height (fst s)) \<le> 16 * gy"
  shows "resting (frame exact gx gy s) \<and> width (fst (frame exact gx gy s)) = width (fst s) \<and>
         height (fst (frame exact gx gy s)) = height (fst s)"
proof -
  let ?inp = "fst s"
  let ?out = "Dispatch exact ?inp gx gy (snd s)"
  have a: "at_rest ?inp" and m: "same_size ?inp (MotionOut (snd s))"
    and c: "same_size ?inp (ConfOut (snd s))"
    using assms(1) by (simp_all add: resting_def)
  have sm: "same_size ?inp (MotionOut ?out)" and sc: "same_size ?inp (ConfOut ?out)"
    using m c fold_size [of ?inp "threads gx gy" "snd s"]
    by (simp_all add: same_size_def Dispatch_def)
  have km: "constant_on_grid (MotionOut ?out) (0, 0)"
    unfolding constant_on_grid_def same_size_in_range [OF sm]
    using rest_Dispatch(1) [OF a _ assms(2,3)] by blast
  have kc: "constant_on_grid (ConfOut ?out) 1"
    unfolding constant_on_grid_def same_size_in_range [OF sc]
    using rest_Dispatch(2) [OF a _ assms(2,3)] by blast
  show ?thesis
    using a sm sc km kc
    by (simp add: frame_def Let_def resting_def at_rest_def same_size_def int_dims_def
        width_def height_def)
qed

lemma frames_resting:
  assumes "resting s"
    and "unat (width (fst s)) \<le> 16 * gx" and "unat (height (fst s)) \<le> 16 * gy"
  shows "resting ((frame exact gx gy ^^ n) s) \<and> width (fst ((frame exact gx gy ^^ n) s)) = width (fst s) \<and>
         height (fst ((frame exact gx gy ^^ n) s)) = height (fst s)"
proof (induction n)
  case 0
  then show ?case using assms(1) by simp
next
  case (Suc n)
  then show ?case
    using frame_resting [of "(frame exact gx gy ^^ n) s" gx gy] assms(2,3) by simp
qed

lemma still_at_rest: "at_rest (scene 4 (0, 0) 1 (0, 0) 1 0)"
  by (simp add: at_rest_def int_dims_def same_size_def constant_on_grid_def width_def height_def
      scene_def uniform_def)

section \<open>The claims\<close>

subsection \<open>C1: passthrough\<close>

text \<open>
  Claim C1. For a thread inside the grid, when \<^verbatim>\<open>resetHistory\<close> is set or the
  \<^verbatim>\<open>historyUV\<close> that the device computes lies outside the unit square in either
  axis, the kernel writes the current motion and the current confidence of that pixel,
  unchanged, whatever the history textures hold: the history textures are replaced by
  arbitrary ones in the statement. The first conjunct gives the whole output state, so no
  later stage alters the two values. The statement holds for every float arithmetic
  \<open>ar\<close>. Texture dimensions are taken to fit a non-negative int.
\<close>

theorem passthrough_correct:
  assumes "in_grid inp tid" and "int_dims inp"
    and "resetHistory inp \<noteq> 0 \<or> outside_unit ar (historyUV ar inp tid)"
  shows "CSMain ar (inp\<lparr>MotionHistory := hm, ConfHistory := hc\<rparr>) tid out =
           out\<lparr>MotionOut := Store (MotionOut out) tid (Texels (MotionCurr inp) (pixel tid)),
               ConfOut := Store (ConfOut out) tid (Texels (ConfCurr inp) (pixel tid))\<rparr> \<and>
         Texels (MotionOut (CSMain ar (inp\<lparr>MotionHistory := hm, ConfHistory := hc\<rparr>) tid out))
             (pixel tid) = Texels (MotionCurr inp) (pixel tid) \<and>
         Texels (ConfOut (CSMain ar (inp\<lparr>MotionHistory := hm, ConfHistory := hc\<rparr>) tid out))
             (pixel tid) = Texels (ConfCurr inp) (pixel tid)"
proof -
  let ?inp = "inp\<lparr>MotionHistory := hm, ConfHistory := hc\<rparr>"
  have g: "in_grid ?inp tid"
    using assms(1) by (simp add: history_free)
  have nv: "\<not> validHistory ar ?inp tid"
    using assms(3) by (auto simp: history_free validHistory_iff)
  have "CSMain ar ?inp tid out =
      out\<lparr>MotionOut := Store (MotionOut out) tid (currMotion inp tid),
          ConfOut := Store (ConfOut out) tid (currConf inp tid)\<rparr>"
    using CSMain_passthrough [OF g nv] by (simp add: history_free)
  then show ?thesis
    by (simp add: currMotion_texel [OF assms(1,2)] currConf_texel [OF assms(1,2)] Texels_Store)
qed

text \<open>A corner pixel of a 4 by 4 grid moving by three texels: the history coordinate is
  \<open>(-5/8, 1/8)\<close>, in exact as in float arithmetic.\<close>

theorem passthrough_correct_witness:
  "in_grid (scene 4 (3, 0) (1/2) (0, 0) 1 0) (0, 0) \<and>
   int_dims (scene 4 (3, 0) (1/2) (0, 0) 1 0) \<and>
   historyUV exact (scene 4 (3, 0) (1/2) (0, 0) 1 0) (0, 0) = (- (5/8), 1/8) \<and>
   outside_unit exact (historyUV exact (scene 4 (3, 0) (1/2) (0, 0) 1 0) (0, 0)) \<and>
   Texels (MotionOut (CSMain exact
       (scene 4 (3, 0) (1/2) (0, 0) 1 0
          \<lparr>MotionHistory := uniform 4 4 (7, 7), ConfHistory := uniform 4 4 1\<rparr>)
       (0, 0) (blank 4))) (pixel (0, 0)) = (3, 0) \<and>
   Texels (ConfOut (CSMain exact
       (scene 4 (3, 0) (1/2) (0, 0) 1 0
          \<lparr>MotionHistory := uniform 4 4 (7, 7), ConfHistory := uniform 4 4 1\<rparr>)
       (0, 0) (blank 4))) (pixel (0, 0)) = 1/2"
proof -
  let ?s = "scene 4 (3, 0) (1/2) (0, 0) 1 0"
  have 1: "in_grid ?s (0, 0)" by (simp add: scene_simps)
  have 2: "int_dims ?s" by (simp add: scene_simps)
  have u: "historyUV exact ?s (0, 0) = (- (5/8), 1/8)" by (simp add: scene_simps)
  have 3: "outside_unit exact (historyUV exact ?s (0, 0))"
    by (simp add: u) (simp add: outside_unit_def exact_def)
  have 4: "Texels (MotionCurr ?s) (pixel (0, 0)) = (3, 0)"
    "Texels (ConfCurr ?s) (pixel (0, 0)) = 1/2" by (simp_all add: scene_simps)
  from 3 have "resetHistory ?s \<noteq> 0 \<or> outside_unit exact (historyUV exact ?s (0, 0))" ..
  from passthrough_correct [OF 1 2 this, where hm = "uniform 4 4 (7, 7)" and hc = "uniform 4 4 1"
      and out = "blank 4"] 1 2 3 4 u
  show ?thesis by (simp add: Texels_Store)
qed

subsection \<open>C2: clamp containment\<close>

text \<open>
  Claim C2. For a pixel with valid history, \<^verbatim>\<open>clampedHistory\<close> lies componentwise
  between \<^verbatim>\<open>minMotion\<close> and \<^verbatim>\<open>maxMotion\<close>; these are the componentwise
  minimum and maximum of the current motion over the edge-clamped 3 by 3 neighbourhood, and
  they do not change when the history textures are replaced. The statement holds for every
  float arithmetic \<open>ar\<close>.
\<close>

theorem clamp_containment:
  assumes "in_grid inp tid" and "int_dims inp" and "validHistory ar inp tid"
  shows "fst (minMotion inp tid) \<le> fst (clampedHistory ar inp tid) \<and>
         fst (clampedHistory ar inp tid) \<le> fst (maxMotion inp tid) \<and>
         snd (minMotion inp tid) \<le> snd (clampedHistory ar inp tid) \<and>
         snd (clampedHistory ar inp tid) \<le> snd (maxMotion inp tid) \<and>
         fst (minMotion inp tid) = Min (fst ` neighborhood inp tid) \<and>
         snd (minMotion inp tid) = Min (snd ` neighborhood inp tid) \<and>
         fst (maxMotion inp tid) = Max (fst ` neighborhood inp tid) \<and>
         snd (maxMotion inp tid) = Max (snd ` neighborhood inp tid) \<and>
         minMotion (inp\<lparr>MotionHistory := hm, ConfHistory := hc\<rparr>) tid = minMotion inp tid \<and>
         maxMotion (inp\<lparr>MotionHistory := hm, ConfHistory := hc\<rparr>) tid = maxMotion inp tid"
proof -
  have "fst (minMotion inp tid) \<le> fst (clampedHistory ar inp tid)"
    "fst (clampedHistory ar inp tid) \<le> fst (maxMotion inp tid)"
    "snd (minMotion inp tid) \<le> snd (clampedHistory ar inp tid)"
    "snd (clampedHistory ar inp tid) \<le> snd (maxMotion inp tid)"
    using min_le_max [of inp tid]
    by (simp_all add: clampedHistory_def clamp2_def min2_def max2_def)
  moreover have "minMotion (inp\<lparr>MotionHistory := hm, ConfHistory := hc\<rparr>) tid = minMotion inp tid"
    "maxMotion (inp\<lparr>MotionHistory := hm, ConfHistory := hc\<rparr>) tid = maxMotion inp tid"
    by (simp_all add: minMotion_def maxMotion_def history_free)
  ultimately show ?thesis
    using bounds_neighborhood [OF assms(1,2)] by simp
qed

text \<open>A 16 by 16 grid in the manner of the scenario of section 8 of the spec, at pixel
  \<open>(8, 8)\<close>: a history of \<open>(5, 0)\<close> is clamped to the maximum \<open>(3, 0)\<close> of a
  neighbourhood that ranges from \<open>(1, 0)\<close> to \<open>(3, 0)\<close>.\<close>

theorem clamp_containment_witness:
  "in_grid scenario (8, 8) \<and> int_dims scenario \<and> validHistory exact scenario (8, 8) \<and>
   historyMotion exact scenario (8, 8) = (5, 0) \<and> clampedHistory exact scenario (8, 8) = (3, 0) \<and>
   Min (fst ` neighborhood scenario (8, 8)) = 1 \<and> Max (fst ` neighborhood scenario (8, 8)) = 3 \<and>
   Min (snd ` neighborhood scenario (8, 8)) = 0 \<and> Max (snd ` neighborhood scenario (8, 8)) = 0"
  using clamp_containment [OF scenario_hyps] scenario_hyps scenario_history scenario_clamped
  by (simp add: minMotion_def maxMotion_def scenario_bounds)

subsection \<open>C3: adaptive blend weight\<close>

text \<open>
  Claim C3. For a pixel with valid history, the weight \<^verbatim>\<open>alpha\<close> that the four
  assignments of the kernel leave is: the literal 0 when the history confidence is below
  0.2; otherwise the base weight 0.5, 0.8 or 0.94 by the computed deviation
  \<^verbatim>\<open>diffLen\<close> (the 10.0 case overrides the 2.0 case), multiplied by 0.9 when the
  current confidence exceeds 0.9. It is one of seven values. Where the arithmetic has
  \<open>b * 1 = b\<close> on the base weights and puts the seven values between 0 and 1, it is the
  step function as the spec words it and lies in \<open>[0, 1]\<close>. It is the weight of both
  blends of step 7, as the last two conjuncts show on the written texels. The statement
  holds for every float arithmetic \<open>ar\<close>, with deviation and thresholds as the device
  computes them.
\<close>

theorem adaptive_blend_weight:
  assumes "in_grid inp tid" and "validHistory ar inp tid"
  shows "alpha ar inp tid =
           (if historyConf ar inp tid < f_lit ar 0.2 then f_lit ar 0
            else if currConf inp tid > f_lit ar 0.9
                 then f_mul ar (base_weight ar (diffLen ar inp tid)) (f_lit ar 0.9)
                 else base_weight ar (diffLen ar inp tid)) \<and>
         diffLen ar inp tid =
           f_length ar (f_sub ar (fst (clampedHistory ar inp tid)) (fst (currMotion inp tid)),
                        f_sub ar (snd (clampedHistory ar inp tid)) (snd (currMotion inp tid))) \<and>
         alpha ar inp tid \<in> set (weights ar) \<and>
         (unit_weights ar \<longrightarrow>
            alpha ar inp tid =
              alpha_spec ar (diffLen ar inp tid) (currConf inp tid) (historyConf ar inp tid) \<and>
            f_lit ar 0 \<le> alpha ar inp tid \<and> alpha ar inp tid \<le> f_lit ar 1) \<and>
         Texels (MotionOut (CSMain ar inp tid out)) (pixel tid) =
           (if f_length ar (lerp2 ar (currMotion inp tid) (clampedHistory ar inp tid)
                              (alpha ar inp tid)) < f_lit ar 0.1
            then (f_lit ar 0, f_lit ar 0)
            else lerp2 ar (currMotion inp tid) (clampedHistory ar inp tid) (alpha ar inp tid)) \<and>
         Texels (ConfOut (CSMain ar inp tid out)) (pixel tid) =
           f_lerp ar (currConf inp tid) (historyConf ar inp tid) (alpha ar inp tid)"
proof -
  have "Texels (MotionOut (CSMain ar inp tid out)) (pixel tid) =
           (if f_length ar (lerp2 ar (currMotion inp tid) (clampedHistory ar inp tid)
                              (alpha ar inp tid)) < f_lit ar 0.1
            then (f_lit ar 0, f_lit ar 0)
            else lerp2 ar (currMotion inp tid) (clampedHistory ar inp tid) (alpha ar inp tid))"
    by (simp add: CSMain_blend [OF assms] Texels_Store finalMotion_def blendedMotion_def)
  moreover have "Texels (ConfOut (CSMain ar inp tid out)) (pixel tid) =
           f_lerp ar (currConf inp tid) (historyConf ar inp tid) (alpha ar inp tid)"
    by (simp add: CSMain_blend [OF assms] Texels_Store finalConf_def)
  moreover have "diffLen ar inp tid =
           f_length ar (f_sub ar (fst (clampedHistory ar inp tid)) (fst (currMotion inp tid)),
                        f_sub ar (snd (clampedHistory ar inp tid)) (snd (currMotion inp tid)))"
    by (simp add: diffLen_def)
  ultimately show ?thesis
    using alpha_closed [of ar inp tid] alpha_in_weights [of ar inp tid]
      alpha_refines [of ar inp tid] alpha_range [of ar inp tid]
    by blast
qed

text \<open>Agreeing history and a current confidence of 1, in exact arithmetic: the weight is
  0.94 * 0.9.\<close>

theorem adaptive_blend_weight_witness:
  "in_grid (scene 4 (1/16, 0) 1 (5, 0) 1 0) (1, 1) \<and>
   validHistory exact (scene 4 (1/16, 0) 1 (5, 0) 1 0) (1, 1) \<and>
   unit_weights exact \<and>
   diffLen exact (scene 4 (1/16, 0) 1 (5, 0) 1 0) (1, 1) = 0 \<and>
   alpha exact (scene 4 (1/16, 0) 1 (5, 0) 1 0) (1, 1) =
     alpha_spec exact 0 1 1 \<and>
   alpha_spec exact 0 1 1 = 0.94 * 0.9 \<and>
   0 \<le> alpha exact (scene 4 (1/16, 0) 1 (5, 0) 1 0) (1, 1) \<and>
   alpha exact (scene 4 (1/16, 0) 1 (5, 0) 1 0) (1, 1) \<le> 1 \<and>
   Texels (ConfOut (CSMain exact (scene 4 (1/16, 0) 1 (5, 0) 1 0) (1, 1) (blank 4)))
     (pixel (1, 1)) = 1"
proof -
  let ?s = "scene 4 (1/16, 0) 1 (5, 0) 1 0"
  have d: "diffLen exact ?s (1, 1) = 0"
    by (simp add: diffLen_def scene_locals length2_def exact_simps)
  have e: "alpha_spec exact 0 1 1 = 0.94 * 0.9"
    by (simp add: alpha_spec_def base_weight_def exact_simps)
  from adaptive_blend_weight [OF scene_in_grid scene_valid, of 1 "(5, 0)" 1 "blank 4"]
  show ?thesis
    using scene_in_grid [of "(1/16, 0)" 1 "(5, 0)" 1 0] scene_valid [of 1 "(5, 0)" 1]
      unit_weights_exact
    by (simp add: d e scene_locals lerp_same exact_simps)
qed

subsection \<open>C4: history discard\<close>

text \<open>
  Claim C4, as stated, has the written motion equal to the current motion whenever the
  history is valid and its confidence is below 0.2. It fails where the current motion is
  shorter than 0.1: the deadzone of lines 145 to 147 runs after the blend and writes
  \<open>(0, 0)\<close>. Here the grid is 4 by 4, the current motion \<open>(1/16, 0)\<close> and the
  history confidence \<open>1/8\<close>; all values that arise are binary fractions, so exact and
  float arithmetic agree on them.
\<close>

theorem history_discard_counterexample:
  "in_grid (scene 4 (1/16, 0) (1/2) (0, 0) (1/8) 0) (1, 1) \<and>
   validHistory exact (scene 4 (1/16, 0) (1/2) (0, 0) (1/8) 0) (1, 1) \<and>
   historyConf exact (scene 4 (1/16, 0) (1/2) (0, 0) (1/8) 0) (1, 1) < f_lit exact 0.2 \<and>
   Texels (MotionOut (CSMain exact (scene 4 (1/16, 0) (1/2) (0, 0) (1/8) 0) (1, 1) (blank 4)))
     (pixel (1, 1)) = (0, 0) \<and>
   Texels (MotionCurr (scene 4 (1/16, 0) (1/2) (0, 0) (1/8) 0)) (pixel (1, 1)) = (1/16, 0) \<and>
   Texels (MotionOut (CSMain exact (scene 4 (1/16, 0) (1/2) (0, 0) (1/8) 0) (1, 1) (blank 4)))
     (pixel (1, 1)) \<noteq>
   Texels (MotionCurr (scene 4 (1/16, 0) (1/2) (0, 0) (1/8) 0)) (pixel (1, 1))"
proof -
  let ?s = "scene 4 (1/16, 0) (1/2) (0, 0) (1/8) 0"
  have b: "blendedMotion exact ?s (1, 1) = (1/16, 0)"
    unfolding blendedMotion_def by (rule scene_blended)
  have f: "finalMotion exact ?s (1, 1) = (0, 0)"
    using tiny by (simp add: finalMotion_def b exact_simps)
  have c: "Texels (MotionCurr ?s) (pixel (1, 1)) = (1/16, 0)"
    by (simp add: scene_def uniform_def)
  have h: "historyConf exact ?s (1, 1) < f_lit exact 0.2"
    by (simp add: scene_locals exact_simps)
  show ?thesis
    using h
    by (simp add: CSMain_blend [OF scene_in_grid scene_valid] Texels_Store f c scene_in_grid
        scene_valid)
qed

text \<open>
  Claim C4, amended. For a pixel with valid history and history confidence below 0.2, the
  weight is the literal 0, whatever the deviation, and the kernel writes the two blends at
  weight 0, the motion after the deadzone. Where \<^verbatim>\<open>lerp\<close> at weight 0 returns its
  first operand (as it does on finite operands), both blends are the current values, the
  written confidence is the current confidence, and the written motion is the current
  motion unless its computed length is below 0.1, in which case it is \<open>(0, 0)\<close>. The
  statement holds for every float arithmetic \<open>ar\<close>.
\<close>

theorem history_discard_amended:
  assumes "in_grid inp tid" and "int_dims inp" and "validHistory ar inp tid"
    and "historyConf ar inp tid < f_lit ar 0.2"
  shows "alpha ar inp tid = f_lit ar 0 \<and>
         Texels (ConfOut (CSMain ar inp tid out)) (pixel tid) =
           f_lerp ar (currConf inp tid) (historyConf ar inp tid) (f_lit ar 0) \<and>
         blendedMotion ar inp tid =
           lerp2 ar (currMotion inp tid) (clampedHistory ar inp tid) (f_lit ar 0) \<and>
         (f_lerp ar (currConf inp tid) (historyConf ar inp tid) (f_lit ar 0) = currConf inp tid \<and>
          lerp2 ar (currMotion inp tid) (clampedHistory ar inp tid) (f_lit ar 0) =
            currMotion inp tid \<longrightarrow>
            blendedMotion ar inp tid = Texels (MotionCurr inp) (pixel tid) \<and>
            finalConf ar inp tid = Texels (ConfCurr inp) (pixel tid) \<and>
            Texels (ConfOut (CSMain ar inp tid out)) (pixel tid) =
              Texels (ConfCurr inp) (pixel tid) \<and>
            Texels (MotionOut (CSMain ar inp tid out)) (pixel tid) =
              (if f_length ar (Texels (MotionCurr inp) (pixel tid)) < f_lit ar 0.1
               then (f_lit ar 0, f_lit ar 0)
               else Texels (MotionCurr inp) (pixel tid)))"
proof -
  have a: "alpha ar inp tid = f_lit ar 0"
    using assms(4) by (simp add: alpha_def Let_def)
  have c: "currMotion inp tid = Texels (MotionCurr inp) (pixel tid)"
    "currConf inp tid = Texels (ConfCurr inp) (pixel tid)"
    by (simp_all add: currMotion_texel [OF assms(1,2)] currConf_texel [OF assms(1,2)])
  show ?thesis
    by (auto simp: CSMain_blend [OF assms(1,3)] Texels_Store finalMotion_def finalConf_def
        blendedMotion_def a c)
qed

text \<open>The input of the counterexample.\<close>

theorem history_discard_amended_witness:
  "in_grid (scene 4 (1/16, 0) (1/2) (0, 0) (1/8) 0) (1, 1) \<and>
   int_dims (scene 4 (1/16, 0) (1/2) (0, 0) (1/8) 0) \<and>
   validHistory exact (scene 4 (1/16, 0) (1/2) (0, 0) (1/8) 0) (1, 1) \<and>
   historyConf exact (scene 4 (1/16, 0) (1/2) (0, 0) (1/8) 0) (1, 1) < f_lit exact 0.2 \<and>
   f_lerp exact (currConf (scene 4 (1/16, 0) (1/2) (0, 0) (1/8) 0) (1, 1))
     (historyConf exact (scene 4 (1/16, 0) (1/2) (0, 0) (1/8) 0) (1, 1)) (f_lit exact 0) =
     currConf (scene 4 (1/16, 0) (1/2) (0, 0) (1/8) 0) (1, 1) \<and>
   lerp2 exact (currMotion (scene 4 (1/16, 0) (1/2) (0, 0) (1/8) 0) (1, 1))
     (clampedHistory exact (scene 4 (1/16, 0) (1/2) (0, 0) (1/8) 0) (1, 1)) (f_lit exact 0) =
     currMotion (scene 4 (1/16, 0) (1/2) (0, 0) (1/8) 0) (1, 1) \<and>
   alpha exact (scene 4 (1/16, 0) (1/2) (0, 0) (1/8) 0) (1, 1) = 0 \<and>
   Texels (ConfOut (CSMain exact (scene 4 (1/16, 0) (1/2) (0, 0) (1/8) 0) (1, 1) (blank 4)))
     (pixel (1, 1)) = 1/2 \<and>
   Texels (MotionOut (CSMain exact (scene 4 (1/16, 0) (1/2) (0, 0) (1/8) 0) (1, 1) (blank 4)))
     (pixel (1, 1)) = (0, 0)"
proof -
  let ?s = "scene 4 (1/16, 0) (1/2) (0, 0) (1/8) 0"
  have h: "historyConf exact ?s (1, 1) < f_lit exact 0.2"
    by (simp add: scene_locals exact_simps)
  have l: "f_lerp exact (currConf ?s (1, 1)) (historyConf exact ?s (1, 1)) (f_lit exact 0) =
      currConf ?s (1, 1)"
    by (simp add: exact_simps lerp_zero)
  have m: "lerp2 exact (currMotion ?s (1, 1)) (clampedHistory exact ?s (1, 1)) (f_lit exact 0) =
      currMotion ?s (1, 1)"
    unfolding scene_blended by (simp add: scene_curr)
  have t: "Texels (MotionCurr ?s) (pixel (1, 1)) = (1/16, 0)"
    "Texels (ConfCurr ?s) (pixel (1, 1)) = 1/2"
    by (simp_all add: scene_def uniform_def)
  from history_discard_amended [OF scene_in_grid scene_int_dims scene_valid h, of "blank 4"]
  show ?thesis
    using tiny h l m scene_in_grid [of "(1/16, 0)" "1/2" "(0, 0)" "1/8" 0]
      scene_int_dims [of "(1/16, 0)" "1/2" "(0, 0)" "1/8" 0] scene_valid [of "1/2" "(0, 0)" "1/8"]
    by (simp add: t exact_simps)
qed

subsection \<open>C5: anti-jitter deadzone\<close>

text \<open>
  Claim C5. For a pixel with valid history, when the length that the device computes for
  the blended motion \<^verbatim>\<open>lerp(currMotion, clampedHistory, alpha)\<close> is below the
  literal 0.1, the motion written to the output is exactly \<open>(0, 0)\<close>. The statement
  holds for every float arithmetic \<open>ar\<close>.
\<close>

theorem deadzone:
  assumes "in_grid inp tid" and "validHistory ar inp tid"
    and "f_length ar (lerp2 ar (currMotion inp tid) (clampedHistory ar inp tid)
           (alpha ar inp tid)) < f_lit ar 0.1"
  shows "Texels (MotionOut (CSMain ar inp tid out)) (pixel tid) = (f_lit ar 0, f_lit ar 0)"
  using assms(3)
  by (simp add: CSMain_blend [OF assms(1,2)] Texels_Store finalMotion_def blendedMotion_def)

text \<open>A blended motion of \<open>(1/16, 0)\<close> is written as \<open>(0, 0)\<close>.\<close>

theorem deadzone_witness:
  "in_grid (scene 4 (1/16, 0) (1/2) (0, 0) 1 0) (1, 1) \<and>
   validHistory exact (scene 4 (1/16, 0) (1/2) (0, 0) 1 0) (1, 1) \<and>
   lerp2 exact (currMotion (scene 4 (1/16, 0) (1/2) (0, 0) 1 0) (1, 1))
     (clampedHistory exact (scene 4 (1/16, 0) (1/2) (0, 0) 1 0) (1, 1))
     (alpha exact (scene 4 (1/16, 0) (1/2) (0, 0) 1 0) (1, 1)) = (1/16, 0) \<and>
   f_length exact (1/16, 0) < f_lit exact 0.1 \<and>
   Texels (MotionOut (CSMain exact (scene 4 (1/16, 0) (1/2) (0, 0) 1 0) (1, 1) (blank 4)))
     (pixel (1, 1)) = (0, 0)"
proof -
  let ?s = "scene 4 (1/16, 0) (1/2) (0, 0) 1 0"
  have t: "f_length exact (1/16, 0) < f_lit exact 0.1"
    using tiny by (simp only: exact_simps)
  from deadzone [OF scene_in_grid scene_valid scene_short, of "1/2" "(0, 0)" 1 "blank 4"]
  show ?thesis
    using t scene_in_grid [of "(1/16, 0)" "1/2" "(0, 0)" 1 0] scene_valid [of "1/2" "(0, 0)" 1]
    by (simp add: scene_blended exact_simps)
qed

subsection \<open>C6: zero-motion fixpoint\<close>

text \<open>
  Claim C6. Let the current and the history motion be \<open>(0, 0)\<close> and both confidences
  \<open>1\<close> at every pixel of the grid, with \<^verbatim>\<open>resetHistory\<close> unset and all textures
  of one size. Then every thread inside the grid takes the blend path and writes motion
  \<open>(0, 0)\<close> and confidence \<open>1\<close>; a dispatch that covers the grid leaves these
  values at every pixel; and after any number of frames, each fed the previous output as
  history, the inputs are in the same state. The statement is about exact arithmetic with
  the bilinear sampler of the spec.
\<close>

theorem zero_motion_fixpoint:
  assumes "at_rest inp" and "same_size inp (MotionOut out)" and "same_size inp (ConfOut out)"
    and "unat (width inp) \<le> 16 * gx" and "unat (height inp) \<le> 16 * gy"
  shows "(in_grid inp tid \<longrightarrow>
            validHistory exact inp tid \<and>
            Texels (MotionOut (CSMain exact inp tid out)) (pixel tid) = (0, 0) \<and>
            Texels (ConfOut (CSMain exact inp tid out)) (pixel tid) = 1) \<and>
         (in_range (MotionCurr inp) p \<longrightarrow>
            Texels (MotionOut (Dispatch exact inp gx gy out)) p = (0, 0) \<and>
            Texels (ConfOut (Dispatch exact inp gx gy out)) p = 1) \<and>
         at_rest (fst ((frame exact gx gy ^^ n) (inp, out)))"
proof -
  have "resting (inp, out)"
    using assms(1,2,3) by (simp add: resting_def)
  then have "resting ((frame exact gx gy ^^ n) (inp, out))"
    using frames_resting [of "(inp, out)" gx gy n] assms(4,5) by simp
  then have "at_rest (fst ((frame exact gx gy ^^ n) (inp, out)))"
    by (simp add: resting_def)
  moreover have "in_grid inp tid \<longrightarrow>
            validHistory exact inp tid \<and>
            Texels (MotionOut (CSMain exact inp tid out)) (pixel tid) = (0, 0) \<and>
            Texels (ConfOut (CSMain exact inp tid out)) (pixel tid) = 1"
    using rest_valid [OF assms(1)] rest_CSMain [OF assms(1)] by (simp add: Texels_Store)
  ultimately show ?thesis
    using rest_Dispatch [OF assms(1) _ assms(4,5)] by blast
qed

text \<open>A 4 by 4 grid at rest, one thread group, output buffers that start with junk.\<close>

theorem zero_motion_fixpoint_witness:
  "at_rest (scene 4 (0, 0) 1 (0, 0) 1 0) \<and>
   same_size (scene 4 (0, 0) 1 (0, 0) 1 0) (uniform 4 4 (7 :: real, 7 :: real)) \<and>
   same_size (scene 4 (0, 0) 1 (0, 0) 1 0) (uniform 4 4 (1/2 :: real)) \<and>
   unat (width (scene 4 (0, 0) 1 (0, 0) 1 0)) \<le> 16 * 1 \<and>
   unat (height (scene 4 (0, 0) 1 (0, 0) 1 0)) \<le> 16 * 1 \<and>
   in_grid (scene 4 (0, 0) 1 (0, 0) 1 0) (1, 1) \<and>
   validHistory exact (scene 4 (0, 0) 1 (0, 0) 1 0) (1, 1) \<and>
   Texels (MotionOut (CSMain exact (scene 4 (0, 0) 1 (0, 0) 1 0) (1, 1)
       \<lparr>MotionOut = uniform 4 4 (7, 7), ConfOut = uniform 4 4 (1/2)\<rparr>)) (pixel (1, 1)) = (0, 0) \<and>
   Texels (ConfOut (CSMain exact (scene 4 (0, 0) 1 (0, 0) 1 0) (1, 1)
       \<lparr>MotionOut = uniform 4 4 (7, 7), ConfOut = uniform 4 4 (1/2)\<rparr>)) (pixel (1, 1)) = 1 \<and>
   in_range (MotionCurr (scene 4 (0, 0) 1 (0, 0) 1 0)) (3, 2) \<and>
   Texels (MotionOut (Dispatch exact (scene 4 (0, 0) 1 (0, 0) 1 0) 1 1
       \<lparr>MotionOut = uniform 4 4 (7, 7), ConfOut = uniform 4 4 (1/2)\<rparr>)) (3, 2) = (0, 0) \<and>
   Texels (ConfOut (Dispatch exact (scene 4 (0, 0) 1 (0, 0) 1 0) 1 1
       \<lparr>MotionOut = uniform 4 4 (7, 7), ConfOut = uniform 4 4 (1/2)\<rparr>)) (3, 2) = 1 \<and>
   at_rest (fst ((frame exact 1 1 ^^ 3)
       (scene 4 (0, 0) 1 (0, 0) 1 0,
        \<lparr>MotionOut = uniform 4 4 (7, 7), ConfOut = uniform 4 4 (1/2)\<rparr>)))"
proof -
  let ?s = "scene 4 (0, 0) 1 (0, 0) 1 0"
  let ?o = "\<lparr>MotionOut = uniform 4 4 (7 :: real, 7 :: real), ConfOut = uniform 4 4 (1/2 :: real)\<rparr>"
  have m: "same_size ?s (MotionOut ?o)" and c: "same_size ?s (ConfOut ?o)"
    by (simp_all add: same_size_def width_def height_def scene_def uniform_def)
  have w: "unat (width ?s) \<le> 16 * 1" and h: "unat (height ?s) \<le> 16 * 1"
    by (simp_all add: width_def height_def scene_def uniform_def)
  have g: "in_grid ?s (1, 1)"
    by (rule scene_in_grid)
  have r: "in_range (MotionCurr ?s) (3, 2)"
    by (simp add: in_range_def scene_def uniform_def)
  from zero_motion_fixpoint [OF still_at_rest m c w h, where tid = "(1, 1)" and p = "(3, 2)"
      and n = 3] still_at_rest m c w h g r
  show ?thesis by simp
qed

subsection \<open>C7: edge-clamp addressing\<close>

text \<open>
  Claim C7. For a thread inside the grid, the loop of lines 64 to 76 loads the current
  motion at nine coordinates; each is the coordinate of the pixel plus the offset, computed
  without wrap-around and clamped to \<open>[0, width-1] \<times> [0, height-1]\<close>, and each lies
  inside the texture. Texture dimensions are taken to fit a non-negative int.
\<close>

theorem edge_clamp_addressing:
  assumes "in_grid inp tid" and "int_dims inp"
  shows "bounds inp tid =
           fold (\<lambda>p mm. (min2 (fst mm) (Load (MotionCurr inp) p),
                         max2 (snd mm) (Load (MotionCurr inp) p)))
             (reads inp tid) (currMotion inp tid, currMotion inp tid) \<and>
         length (reads inp tid) = 9 \<and>
         reads inp tid =
           map (\<lambda>d. edge_clamp inp (uint (fst tid) + fst d, uint (snd tid) + snd d)) offsets \<and>
         (\<forall>p \<in> set (reads inp tid). in_range (MotionCurr inp) p)"
proof -
  note g = in_grid_uint [OF assms(1)]
  have "length (reads inp tid) = 9"
    by (simp add: reads_def offsets_eq)
  moreover have "\<forall>p \<in> set (reads inp tid). in_range (MotionCurr inp) p"
    using edge_clamp_in_range [OF g(3,4)] by (auto simp: reads_edge_clamp [OF assms])
  ultimately show ?thesis
    using bounds_reads [of inp tid] reads_edge_clamp [OF assms] by simp
qed

text \<open>The pixel \<open>(0, 3)\<close> on the left and bottom edge of a 4 by 4 grid reuses the
  border texels.\<close>

theorem edge_clamp_addressing_witness:
  "in_grid (scene 4 (1/16, 0) 1 (0, 0) 1 0) (0, 3) \<and> int_dims (scene 4 (1/16, 0) 1 (0, 0) 1 0) \<and>
   reads (scene 4 (1/16, 0) 1 (0, 0) 1 0) (0, 3) =
     [(0, 2), (0, 2), (1, 2), (0, 3), (0, 3), (1, 3), (0, 3), (0, 3), (1, 3)] \<and>
   in_range (MotionCurr (scene 4 (1/16, 0) 1 (0, 0) 1 0)) (0, 2) \<and>
   in_range (MotionCurr (scene 4 (1/16, 0) 1 (0, 0) 1 0)) (1, 3)"
proof -
  let ?s = "scene 4 (1/16, 0) 1 (0, 0) 1 0"
  have g: "in_grid ?s (0, 3)" by (simp add: scene_simps)
  have e: "map (\<lambda>d. edge_clamp ?s (uint (fst (0::32 word, 3::32 word)) + fst d,
      uint (snd (0::32 word, 3::32 word)) + snd d)) offsets =
      [(0, 2), (0, 2), (1, 2), (0, 3), (0, 3), (1, 3), (0, 3), (0, 3), (1, 3)]"
    by (simp add: offsets_eq edge_clamp_def scene_def uniform_def width_def height_def)
  from edge_clamp_addressing [OF g scene_int_dims] g scene_int_dims [of "(1/16, 0)" 1 "(0, 0)" 1 0]
  show ?thesis
    by (simp only: e) simp
qed

subsection \<open>C8: determinism and unused inputs\<close>

text \<open>
  Claim C8. The kernel is a function of its inputs, and neither \<^verbatim>\<open>LumaPrev\<close>,
  \<^verbatim>\<open>LumaCurr\<close>, \<^verbatim>\<open>historyWeight\<close> nor \<^verbatim>\<open>confInfluence\<close> is
  read: replacing the four leaves the result of one thread, and of any sequence of threads,
  unchanged. What a thread inside the grid writes at its pixel does not depend on the
  previous contents of the output textures either. The statement holds for every float
  arithmetic \<open>ar\<close>.
\<close>

theorem deterministic_unused_inputs:
  "CSMain ar (inp\<lparr>LumaPrev := lp, LumaCurr := lc, historyWeight := hw, confInfluence := ci\<rparr>) tid out
     = CSMain ar inp tid out \<and>
   fold (CSMain ar (inp\<lparr>LumaPrev := lp, LumaCurr := lc, historyWeight := hw, confInfluence := ci\<rparr>))
       tids out = fold (CSMain ar inp) tids out \<and>
   (in_grid inp tid \<longrightarrow>
      Texels (MotionOut (CSMain ar
          (inp\<lparr>LumaPrev := lp, LumaCurr := lc, historyWeight := hw, confInfluence := ci\<rparr>)
          tid out')) (pixel tid) = Texels (MotionOut (CSMain ar inp tid out)) (pixel tid) \<and>
      Texels (ConfOut (CSMain ar
          (inp\<lparr>LumaPrev := lp, LumaCurr := lc, historyWeight := hw, confInfluence := ci\<rparr>)
          tid out')) (pixel tid) = Texels (ConfOut (CSMain ar inp tid out)) (pixel tid))"
proof -
  have "CSMain ar (inp\<lparr>LumaPrev := lp, LumaCurr := lc, historyWeight := hw, confInfluence := ci\<rparr>)
      = CSMain ar inp"
    by (simp add: fun_eq_iff CSMain_unused)
  then show ?thesis
    by (simp add: CSMain_written)
qed

text \<open>Two runs that differ in the four unused inputs and in the output buffers.\<close>

theorem deterministic_unused_inputs_witness:
  "in_grid (scene 4 (1/16, 0) 1 (0, 0) 1 0) (1, 1) \<and>
   Texels (MotionOut (CSMain exact
       (scene 4 (1/16, 0) 1 (0, 0) 1 0
          \<lparr>LumaPrev := uniform 4 4 7, LumaCurr := uniform 4 4 9, historyWeight := 3,
             confInfluence := 5\<rparr>)
       (1, 1) (blank 16))) (pixel (1, 1)) =
   Texels (MotionOut (CSMain exact (scene 4 (1/16, 0) 1 (0, 0) 1 0) (1, 1) (blank 4))) (pixel (1, 1))"
  using deterministic_unused_inputs [where ar = exact and inp = "scene 4 (1/16, 0) 1 (0, 0) 1 0"
      and lp = "uniform 4 4 7" and lc = "uniform 4 4 9" and hw = 3 and ci = 5 and tid = "(1, 1)"
      and out = "blank 4" and out' = "blank 16"]
    scene_in_grid [of "(1/16, 0)" 1 "(0, 0)" 1 0]
  by blast

subsection \<open>C9: out-of-bounds threads write nothing\<close>

text \<open>
  Claim C9. A thread with \<open>x \<ge> width\<close> or \<open>y \<ge> height\<close> leaves both output
  textures as they are. A thread inside the grid stores one value in each output texture,
  at its own coordinate, which lies inside the grid; every other texel is left as it is.
  Hence after any sequence of threads the texels outside the grid are unchanged. The
  statement holds for every float arithmetic \<open>ar\<close>.
\<close>

theorem out_of_bounds_writes_nothing:
  "(width inp \<le> fst tid \<or> height inp \<le> snd tid \<longrightarrow> CSMain ar inp tid out = out) \<and>
   (fst tid < width inp \<and> snd tid < height inp \<longrightarrow>
      in_range (MotionCurr inp) (pixel tid) \<and>
      CSMain ar inp tid out =
        out\<lparr>MotionOut := Store (MotionOut out) tid
                (if validHistory ar inp tid then finalMotion ar inp tid else currMotion inp tid),
            ConfOut := Store (ConfOut out) tid
                (if validHistory ar inp tid then finalConf ar inp tid else currConf inp tid)\<rparr>) \<and>
   (q \<noteq> pixel tid \<longrightarrow>
      Texels (MotionOut (CSMain ar inp tid out)) q = Texels (MotionOut out) q \<and>
      Texels (ConfOut (CSMain ar inp tid out)) q = Texels (ConfOut out) q) \<and>
   (\<not> in_range (MotionCurr inp) p \<longrightarrow>
      Texels (MotionOut (fold (CSMain ar inp) tids out)) p = Texels (MotionOut out) p \<and>
      Texels (ConfOut (fold (CSMain ar inp) tids out)) p = Texels (ConfOut out) p)"
proof -
  have "width inp \<le> fst tid \<or> height inp \<le> snd tid \<longrightarrow> CSMain ar inp tid out = out"
    by (simp add: CSMain_def)
  moreover have "fst tid < width inp \<and> snd tid < height inp \<longrightarrow>
      in_range (MotionCurr inp) (pixel tid) \<and>
      CSMain ar inp tid out =
        out\<lparr>MotionOut := Store (MotionOut out) tid
                (if validHistory ar inp tid then finalMotion ar inp tid else currMotion inp tid),
            ConfOut := Store (ConfOut out) tid
                (if validHistory ar inp tid then finalConf ar inp tid else currConf inp tid)\<rparr>"
    using in_grid_in_range [of inp tid] CSMain_in_grid [where inp = inp and tid = tid and out = out and ar = ar]
    by (simp add: in_grid_def)
  ultimately show ?thesis
    using fold_off_grid [where inp = inp and p = p and tids = tids and out = out and ar = ar]
      CSMain_elsewhere [where q = q and tid = tid and inp = inp and out = out and ar = ar]
    by blast
qed

text \<open>A thread outside and a thread inside a 4 by 4 grid.\<close>

theorem out_of_bounds_writes_nothing_witness:
  "(width (scene 4 (1/16, 0) 1 (0, 0) 1 0) \<le> fst (4 :: 32 word, 0 :: 32 word) \<or>
    height (scene 4 (1/16, 0) 1 (0, 0) 1 0) \<le> snd (4 :: 32 word, 0 :: 32 word)) \<and>
   CSMain exact (scene 4 (1/16, 0) 1 (0, 0) 1 0) (4, 0) (blank 4) = blank 4 \<and>
   fst (1 :: 32 word, 1 :: 32 word) < width (scene 4 (1/16, 0) 1 (0, 0) 1 0) \<and>
   snd (1 :: 32 word, 1 :: 32 word) < height (scene 4 (1/16, 0) 1 (0, 0) 1 0) \<and>
   in_range (MotionCurr (scene 4 (1/16, 0) 1 (0, 0) 1 0)) (pixel (1, 1)) \<and>
   (2, 2) \<noteq> pixel (1, 1) \<and>
   Texels (MotionOut (CSMain exact (scene 4 (1/16, 0) 1 (0, 0) 1 0) (1, 1) (blank 4))) (2, 2) =
     Texels (MotionOut (blank 4)) (2, 2) \<and>
   \<not> in_range (MotionCurr (scene 4 (1/16, 0) 1 (0, 0) 1 0)) (4, 0) \<and>
   Texels (MotionOut (fold (CSMain exact (scene 4 (1/16, 0) 1 (0, 0) 1 0)) [(1, 1), (4, 0)] (blank 4)))
     (4, 0) = Texels (MotionOut (blank 4)) (4, 0)"
proof -
  let ?s = "scene 4 (1/16, 0) 1 (0, 0) 1 0"
  have a: "width ?s \<le> fst (4 :: 32 word, 0 :: 32 word) \<or> height ?s \<le> snd (4 :: 32 word, 0 :: 32 word)"
    by (simp add: scene_simps)
  have b: "fst (1 :: 32 word, 1 :: 32 word) < width ?s \<and> snd (1 :: 32 word, 1 :: 32 word) < height ?s"
    by (simp add: scene_simps)
  have c: "(2, 2) \<noteq> pixel (1, 1)"
    by (simp add: pixel_def)
  have d: "\<not> in_range (MotionCurr ?s) (4, 0)"
    by (simp add: scene_def uniform_def in_range_def)
  from out_of_bounds_writes_nothing [where ar = exact and inp = ?s and tid = "(4, 0)" and out = "blank 4"
      and q = "(2, 2)" and p = "(4, 0)" and tids = "[(1, 1), (4, 0)]"]
    out_of_bounds_writes_nothing [where ar = exact and inp = ?s and tid = "(1, 1)" and out = "blank 4"
      and q = "(2, 2)" and p = "(4, 0)" and tids = "[(1, 1), (4, 0)]"]
    a b c d
  show ?thesis by blast
qed

subsection \<open>C10: the deadzone leaves the confidence alone\<close>

text \<open>
  Claim C10. For a pixel with valid history whose blended motion has a computed length
  below the literal 0.1, the motion written is \<open>(0, 0)\<close> and the confidence written is
  still the blend \<^verbatim>\<open>lerp(currConf, historyConf, alpha)\<close>, with the weight the kernel
  computed. The statement holds for every float arithmetic \<open>ar\<close>.
\<close>

theorem deadzone_keeps_confidence:
  assumes "in_grid inp tid" and "validHistory ar inp tid"
    and "f_length ar (lerp2 ar (currMotion inp tid) (clampedHistory ar inp tid)
           (alpha ar inp tid)) < f_lit ar 0.1"
  shows "MotionOut (CSMain ar inp tid out) =
           Store (MotionOut out) tid (f_lit ar 0, f_lit ar 0) \<and>
         ConfOut (CSMain ar inp tid out) =
           Store (ConfOut out) tid
             (f_lerp ar (currConf inp tid) (historyConf ar inp tid) (alpha ar inp tid))"
  using assms(3)
  by (simp add: CSMain_blend [OF assms(1,2)] finalMotion_def blendedMotion_def finalConf_def)

text \<open>A pixel whose motion is forced to \<open>(0, 0)\<close> while its confidence is written
  as 1.\<close>

theorem deadzone_keeps_confidence_witness:
  "in_grid (scene 4 (1/16, 0) 1 (0, 0) 1 0) (1, 1) \<and>
   validHistory exact (scene 4 (1/16, 0) 1 (0, 0) 1 0) (1, 1) \<and>
   lerp2 exact (currMotion (scene 4 (1/16, 0) 1 (0, 0) 1 0) (1, 1))
     (clampedHistory exact (scene 4 (1/16, 0) 1 (0, 0) 1 0) (1, 1))
     (alpha exact (scene 4 (1/16, 0) 1 (0, 0) 1 0) (1, 1)) = (1/16, 0) \<and>
   f_length exact (1/16, 0) < f_lit exact 0.1 \<and>
   MotionOut (CSMain exact (scene 4 (1/16, 0) 1 (0, 0) 1 0) (1, 1) (blank 4)) =
     Store (MotionOut (blank 4)) (1, 1) (0, 0) \<and>
   ConfOut (CSMain exact (scene 4 (1/16, 0) 1 (0, 0) 1 0) (1, 1) (blank 4)) =
     Store (ConfOut (blank 4)) (1, 1) 1"
proof -
  let ?s = "scene 4 (1/16, 0) 1 (0, 0) 1 0"
  have t: "f_length exact (1/16, 0) < f_lit exact 0.1"
    using tiny by (simp only: exact_simps)
  have b: "lerp2 exact (currMotion ?s (1, 1)) (clampedHistory exact ?s (1, 1))
      (alpha exact ?s (1, 1)) = (1/16, 0)"
    by (rule scene_blended)
  have c: "f_lerp exact (currConf ?s (1, 1)) (historyConf exact ?s (1, 1)) (alpha exact ?s (1, 1))
      = 1"
    by (simp add: scene_curr lerp_same exact_simps)
  have z: "(f_lit exact 0, f_lit exact 0) = (0, 0)"
    by (simp add: exact_simps)
  from deadzone_keeps_confidence [OF scene_in_grid scene_valid scene_short, of 1 "(0, 0)" 1
      "blank 4"]
  show ?thesis
    unfolding c z
    using t b scene_in_grid [of "(1/16, 0)" 1 "(0, 0)" 1 0] scene_valid [of 1 "(0, 0)" 1]
    by blast
qed

end
